theory Spec2Isabelle
  imports Complex_Main
begin

section \<open>Tensors, errors and the polyak rule\<close>

text \<open>
  The training steps of \<^verbatim>\<open>tmrl/custom/custom_algorithms.py\<close> are embedded over the
  reals: a one-dimensional tensor (one entry per transition of the batch) is a list of
  reals, a tensor of shape \<^verbatim>\<open>(1,)\<close> or \<^verbatim>\<open>()\<close> is a real. Floating-point rounding, NaN and
  infinities are outside the embedding. The exceptions a step can raise are values.
\<close>

datatype error = AttributeError | ValueError | IndexError | RuntimeError | ZeroDivisionError

type_synonym tensor = "real list"

definition bind_err :: "error + 'a \<Rightarrow> ('a \<Rightarrow> error + 'b) \<Rightarrow> error + 'b" where
  "bind_err x f = (case x of Inl e \<Rightarrow> Inl e | Inr v \<Rightarrow> f v)"

text \<open>
  An elementwise binary operation of torch on two one-dimensional tensors: equal sizes
  pair up, a size of one is broadcast, any other pair of sizes raises RuntimeError.
\<close>

definition broadcast :: "(real \<Rightarrow> real \<Rightarrow> real) \<Rightarrow> tensor \<Rightarrow> tensor \<Rightarrow> error + tensor" where
  "broadcast f xs ys =
     (if length xs = length ys then Inr (map2 f xs ys)
      else if length xs = 1 then Inr (map (f (hd xs)) ys)
      else if length ys = 1 then Inr (map (\<lambda>x. f x (hd ys)) xs)
      else Inl RuntimeError)"

text \<open>Multiplication of a tensor by a Python float or by a one-element tensor.\<close>

definition scale :: "real \<Rightarrow> tensor \<Rightarrow> tensor" where
  "scale c xs = map (\<lambda>x. c * x) xs"

definition mean :: "tensor \<Rightarrow> real" where
  "mean xs = sum_list xs / real (length xs)"

text \<open>\<^verbatim>\<open>((q - backup)**2).mean()\<close>\<close>

definition mse :: "tensor \<Rightarrow> tensor \<Rightarrow> error + real" where
  "mse q backup = bind_err (broadcast (-) q backup) (\<lambda>e. Inr (mean (map (\<lambda>x. x ^ 2) e)))"

text \<open>
  The loop \<^verbatim>\<open>for p, p_targ in zip(...): p_targ.data.mul_(polyak);
  p_targ.data.add_((1 - polyak) * p.data)\<close> over the parameters of one sub-module, each
  list entry one scalar weight. \<^verbatim>\<open>zip\<close> stops at the shorter list; a target weight without
  a live partner is left as it is.
\<close>

definition polyak_avg :: "real \<Rightarrow> real list \<Rightarrow> real list \<Rightarrow> real list" where
  "polyak_avg \<rho> ps ts = map2 (\<lambda>p t. t * \<rho> + (1 - \<rho>) * p) ps ts @ drop (length ps) ts"

section \<open>Agents\<close>

text \<open>
  The approximator is held by its parameters: \<open>actor\<close>, \<open>q1\<close>, \<open>q2\<close> (SAC) and \<open>qs\<close>
  (REDQ) are the weight vectors of the sub-modules of \<^verbatim>\<open>self.model\<close>. The target
  approximator \<^verbatim>\<open>self.model_target\<close> has the same type.
\<close>

record actor_model =
  actor :: "real list"

record sac_model = actor_model +
  q1 :: "real list"
  q2 :: "real list"

record redq_model = actor_model +
  qs :: "real list list"

text \<open>
  \<^verbatim>\<open>__post_init__\<close> creates either \<^verbatim>\<open>self.log_alpha\<close> with \<^verbatim>\<open>self.alpha_optimizer\<close>
  (\<open>Learned\<close>) or \<^verbatim>\<open>self.alpha_t\<close> (\<open>Fixed\<close>), never both: reading the attribute of the
  other branch raises AttributeError.
\<close>

datatype 's entropy_coef = Learned real 's | Fixed real

text \<open>
  The attributes both agents share. An optimizer attribute holds the state of that
  Adam instance (type \<open>'s\<close>); the parameters it updates are those of the model.
\<close>

record ('m, 's) agent =
  gamma :: real
  polyak :: real
  learn_entropy_coef :: bool
  target_entropy :: real
  model :: 'm
  model_target :: 'm
  pi_optimizer :: 's
  entropy :: "'s entropy_coef"

record 's sac_agent = "(sac_model, 's) agent" +
  q_optimizer :: 's

record 's redq_agent = "(redq_model, 's) agent" +
  q_optimizer_list :: "'s list"
  redq_n :: int
  redq_m :: int
  q_updates_per_policy_update :: int
  i_update :: int
  loss_pi :: real

section \<open>External collaborators\<close>

text \<open>
  The networks, the optimizers and the random number generators are not part of the
  file; the embedding takes them as parameters. \<open>actor_forward \<theta> ob z\<close> is
  \<^verbatim>\<open>self.model.actor(o)\<close> with actor weights \<open>\<theta>\<close> and the noise \<open>z\<close> that the sampling
  draws: it returns the sampled actions and their log-probabilities. A critic maps
  weights, observations and actions to one value per transition. An optimizer step
  (\<^verbatim>\<open>zero_grad(); loss.backward(); step()\<close>) takes the state of the optimizer, the loss
  as a function of the parameters the optimizer owns (everything computed under
  \<^verbatim>\<open>no_grad\<close>, detached or frozen is a constant of that function) and the current
  parameters; it returns the new state and the new parameters.
\<close>

record ('o, 'a, 'z, 's) net =
  actor_forward :: "real list \<Rightarrow> 'o \<Rightarrow> 'z \<Rightarrow> 'a \<times> tensor"
  pi_step :: "'s \<Rightarrow> (real list \<Rightarrow> error + real) \<Rightarrow> real list \<Rightarrow> 's \<times> real list"
  alpha_step :: "'s \<Rightarrow> (real \<Rightarrow> real) \<Rightarrow> real \<Rightarrow> 's \<times> real"

record ('o, 'a, 'z, 's) sac_net = "('o, 'a, 'z, 's) net" +
  q1_forward :: "real list \<Rightarrow> 'o \<Rightarrow> 'a \<Rightarrow> tensor"
  q2_forward :: "real list \<Rightarrow> 'o \<Rightarrow> 'a \<Rightarrow> tensor"
  q_step :: "'s \<Rightarrow> (real list \<times> real list \<Rightarrow> error + real)
               \<Rightarrow> real list \<times> real list \<Rightarrow> 's \<times> real list \<times> real list"

record ('o, 'a, 'z, 's) redq_net = "('o, 'a, 'z, 's) net" +
  qs_forward :: "nat \<Rightarrow> real list \<Rightarrow> 'o \<Rightarrow> 'a \<Rightarrow> tensor"
  qs_step :: "nat \<Rightarrow> 's \<Rightarrow> (real list \<Rightarrow> error + real) \<Rightarrow> real list \<Rightarrow> 's \<times> real list"

text \<open>
  What one call draws at random: the noise of the actor at the observations, the noise
  of the actor at the next observations and, for REDQ, the permutation of
  \<^verbatim>\<open>range(n)\<close> that \<^verbatim>\<open>np.random.choice\<close> cuts its sample from.
\<close>

record 'z rng =
  eps_pi :: 'z
  eps_a2 :: 'z

record 'z redq_rng = "'z rng" +
  perm :: "nat list"

type_synonym ('o, 'a) batch = "'o \<times> 'a \<times> tensor \<times> 'o \<times> tensor"

section \<open>The entropy coefficient\<close>

text \<open>
  Lines 82 to 95 (SAC) and 254 to 259 (REDQ): \<open>learn\<close> is the condition of the
  \<^verbatim>\<open>if\<close>. The result is \<^verbatim>\<open>alpha_t\<close> and \<^verbatim>\<open>loss_alpha\<close> (None when not learned) as a
  function of \<^verbatim>\<open>log_alpha\<close>; \<^verbatim>\<open>logp_pi\<close> and the target entropy are detached.
\<close>

definition loss_alpha_fn :: "real \<Rightarrow> tensor \<Rightarrow> real \<Rightarrow> real" where
  "loss_alpha_fn tgt logp_pi = (\<lambda>la. - mean (map (\<lambda>x. la * (x + tgt)) logp_pi))"

definition entropy_coefficient ::
  "bool \<Rightarrow> ('m, 's, 'x) agent_scheme \<Rightarrow> tensor \<Rightarrow> error + real \<times> (real \<Rightarrow> real) option" where
  "entropy_coefficient learn ag logp_pi =
     (if learn then
        (case entropy ag of
           Learned la s \<Rightarrow> Inr (exp la, Some (loss_alpha_fn (target_entropy ag) logp_pi))
         | Fixed c \<Rightarrow> Inl AttributeError)
      else
        (case entropy ag of
           Fixed c \<Rightarrow> Inr (c, None)
         | Learned la s \<Rightarrow> Inl AttributeError))"

text \<open>
  Lines 101 to 104 and 261 to 264: the step of the entropy optimizer when
  \<^verbatim>\<open>loss_alpha\<close> is not None. It returns the agent after the step and the value of the
  loss (computed before the step).
\<close>

definition optimize_entropy ::
  "('o, 'a, 'z, 's, 'y) net_scheme \<Rightarrow> ('m, 's, 'x) agent_scheme \<Rightarrow> (real \<Rightarrow> real) option
     \<Rightarrow> ('m, 's, 'x) agent_scheme \<times> real option" where
  "optimize_entropy ext ag loss_alpha =
     (case loss_alpha of
        None \<Rightarrow> (ag, None)
      | Some L \<Rightarrow>
          (case entropy ag of
             Learned la s \<Rightarrow>
               (let (s', la') = alpha_step ext s L la
                in (ag\<lparr>entropy := Learned la' s'\<rparr>, Some (L la)))
           | Fixed c \<Rightarrow> (ag, None)))"

section \<open>Soft Actor-Critic\<close>

text \<open>Lines 123 to 125: the elementwise minimum of the two target critics.\<close>

definition sac_q_pi_targ ::
  "('o, 'a, 'z, 's, 'y) sac_net_scheme \<Rightarrow> sac_model \<Rightarrow> 'o \<Rightarrow> 'a \<Rightarrow> error + tensor" where
  "sac_q_pi_targ ext targ o2 a2 =
     broadcast min (q1_forward ext (q1 targ) o2 a2) (q2_forward ext (q2 targ) o2 a2)"

text \<open>
  Lines 118 to 126: the Bellman backup. The next actions come from the live actor
  (\<^verbatim>\<open>self.model.actor\<close>), the values from the target critics.
\<close>

definition sac_backup ::
  "('o, 'a, 'z, 's, 'y) sac_net_scheme \<Rightarrow> real \<Rightarrow> sac_model \<Rightarrow> sac_model \<Rightarrow> real
     \<Rightarrow> tensor \<Rightarrow> 'o \<Rightarrow> tensor \<Rightarrow> 'z \<Rightarrow> error + tensor" where
  "sac_backup ext gam live targ alpha_t r o2 d z2 =
     (let (a2, logp_a2) = actor_forward ext (actor live) o2 z2 in
      bind_err (sac_q_pi_targ ext targ o2 a2) (\<lambda>q_pi_targ.
      bind_err (broadcast (-) q_pi_targ (scale alpha_t logp_a2)) (\<lambda>v.
      bind_err (broadcast (*) (scale gam (map (\<lambda>x. 1 - x) d)) v) (\<lambda>w.
      broadcast (+) r w))))"

text \<open>
  Lines 112 to 133: \<^verbatim>\<open>loss_q\<close> as a function of the weights of the two live critics;
  the backup is a constant.
\<close>

definition sac_loss_q ::
  "('o, 'a, 'z, 's, 'y) sac_net_scheme \<Rightarrow> 'o \<Rightarrow> 'a \<Rightarrow> tensor
     \<Rightarrow> real list \<times> real list \<Rightarrow> error + real" where
  "sac_loss_q ext ob a backup =
     (\<lambda>(p1, p2).
        bind_err (mse (q1_forward ext p1 ob a) backup) (\<lambda>loss_q1.
        bind_err (mse (q2_forward ext p2 ob a) backup) (\<lambda>loss_q2.
        Inr ((loss_q1 + loss_q2) / 2))))"

text \<open>
  Lines 75 and 151 to 158: \<^verbatim>\<open>loss_pi\<close> as a function of the weights of the actor.
  \<open>z\<close> is the noise drawn at line 75; the critics are frozen at the weights \<open>p1\<close>, \<open>p2\<close>.
\<close>

definition sac_loss_pi ::
  "('o, 'a, 'z, 's, 'y) sac_net_scheme \<Rightarrow> real list \<Rightarrow> real list \<Rightarrow> real \<Rightarrow> 'o \<Rightarrow> 'z
     \<Rightarrow> real list \<Rightarrow> error + real" where
  "sac_loss_pi ext p1 p2 alpha_t ob z =
     (\<lambda>\<theta>. let (a_pi, logp_pi) = actor_forward ext \<theta> ob z in
        bind_err (broadcast min (q1_forward ext p1 ob a_pi) (q2_forward ext p2 ob a_pi)) (\<lambda>q_pi.
        bind_err (broadcast (-) (scale alpha_t logp_pi) q_pi) (\<lambda>e.
        Inr (mean e))))"

text \<open>Lines 170 to 176, over the sub-modules of the SAC model.\<close>

definition sac_polyak :: "real \<Rightarrow> sac_model \<Rightarrow> sac_model \<Rightarrow> sac_model" where
  "sac_polyak \<rho> live targ =
     targ\<lparr>actor := polyak_avg \<rho> (actor live) (actor targ),
          q1 := polyak_avg \<rho> (q1 live) (q1 targ),
          q2 := polyak_avg \<rho> (q2 live) (q2 targ)\<rparr>"

text \<open>Lines 180 to 187: the returned dictionary.\<close>

definition ret_dict :: "real \<Rightarrow> real \<Rightarrow> string \<rightharpoonup> real" where
  "ret_dict loss_actor loss_critic =
     [''loss_actor'' \<mapsto> loss_actor, ''loss_critic'' \<mapsto> loss_critic]"

definition ret_entropy ::
  "bool \<Rightarrow> real option \<Rightarrow> real \<Rightarrow> (string \<rightharpoonup> real) \<Rightarrow> error + (string \<rightharpoonup> real)" where
  "ret_entropy learn loss_alpha alpha_t ret =
     (if learn then
        (case loss_alpha of
           None \<Rightarrow> Inl AttributeError
         | Some l \<Rightarrow> Inr (ret(''loss_entropy_coef'' \<mapsto> l, ''entropy_coef'' \<mapsto> alpha_t)))
      else Inr ret)"

text \<open>
  \<^verbatim>\<open>SpinupSacAgent.train\<close>. The result is the agent as the call leaves it, and either
  the exception that ended the call or the returned dictionary.
\<close>

definition sac_train ::
  "('o, 'a, 'z, 's, 'y) sac_net_scheme \<Rightarrow> 's sac_agent \<Rightarrow> ('o, 'a) batch
     \<Rightarrow> ('z, 'w) rng_scheme \<Rightarrow> 's sac_agent \<times> (error + (string \<rightharpoonup> real))" where
  "sac_train ext ag batch rnd =
     (case batch of (ob, a, r, o2, d) \<Rightarrow>
      let (a_pi, logp_pi) = actor_forward ext (actor (model ag)) ob (eps_pi rnd) in
      case entropy_coefficient (learn_entropy_coef ag) ag logp_pi of
        Inl e \<Rightarrow> (ag, Inl e)
      | Inr (alpha_t, loss_alpha) \<Rightarrow>
      let (ag1, loss_alpha_val) = optimize_entropy ext ag loss_alpha in
      case sac_backup ext (gamma ag1) (model ag1) (model_target ag1) alpha_t r o2 d (eps_a2 rnd) of
        Inl e \<Rightarrow> (ag1, Inl e)
      | Inr backup \<Rightarrow>
      let loss_q = sac_loss_q ext ob a backup;
          cur = (q1 (model ag1), q2 (model ag1)) in
      case loss_q cur of
        Inl e \<Rightarrow> (ag1, Inl e)
      | Inr loss_q_val \<Rightarrow>
      let (sq, p1, p2) = q_step ext (q_optimizer ag1) loss_q cur;
          ag2 = ag1\<lparr>model := (model ag1)\<lparr>q1 := p1, q2 := p2\<rparr>, q_optimizer := sq\<rparr>;
          loss_pi_fn = sac_loss_pi ext p1 p2 alpha_t ob (eps_pi rnd) in
      case loss_pi_fn (actor (model ag2)) of
        Inl e \<Rightarrow> (ag2, Inl e)
      | Inr loss_pi_val \<Rightarrow>
      let (sp, th) = pi_step ext (pi_optimizer ag2) loss_pi_fn (actor (model ag2));
          ag3 = ag2\<lparr>model := (model ag2)\<lparr>actor := th\<rparr>, pi_optimizer := sp\<rparr>;
          ag4 = ag3\<lparr>model_target := sac_polyak (polyak ag3) (model ag3) (model_target ag3)\<rparr>
      in (ag4, ret_entropy (learn_entropy_coef ag4) loss_alpha_val alpha_t
                 (ret_dict loss_pi_val loss_q_val)))"

section \<open>REDQ-SAC\<close>

text \<open>
  \<^verbatim>\<open>np.random.choice(n, m, replace=False)\<close>: numpy raises ValueError for an empty
  population with a non-empty sample, for a sample larger than the population and for a
  negative size; otherwise the sample is the first \<open>m\<close> entries of the permutation
  \<open>p\<close> of \<^verbatim>\<open>range(n)\<close> that the generator draws.
\<close>

definition random_choice :: "int \<Rightarrow> int \<Rightarrow> nat list \<Rightarrow> error + nat list" where
  "random_choice n k p =
     (if n \<le> 0 \<and> k \<noteq> 0 then Inl ValueError
      else if k > n then Inl ValueError
      else if k < 0 then Inl ValueError
      else Inr (take (nat k) p))"

text \<open>
  \<^verbatim>\<open>torch.stack(tensors, -1)\<close> of one-dimensional tensors: the list must not be empty
  and the sizes must agree. The stacked matrix is held by its columns, one per critic.
\<close>

definition stack :: "tensor list \<Rightarrow> error + tensor list" where
  "stack cols =
     (case cols of
        [] \<Rightarrow> Inl RuntimeError
      | c # cs \<Rightarrow> if list_all (\<lambda>x. length x = length c) cs then Inr cols else Inl RuntimeError)"

text \<open>\<^verbatim>\<open>torch.min(cat, dim=1, keepdim=True)\<close> and \<^verbatim>\<open>torch.mean(cat, dim=1, keepdim=True)\<close>
  of a stacked matrix: one entry per transition.\<close>

definition min_dim1 :: "tensor list \<Rightarrow> tensor" where
  "min_dim1 cols = (case cols of [] \<Rightarrow> [] | c # cs \<Rightarrow> foldl (map2 min) c cs)"

definition mean_dim1 :: "tensor list \<Rightarrow> tensor" where
  "mean_dim1 cols =
     (case cols of
        [] \<Rightarrow> []
      | c # cs \<Rightarrow> map (\<lambda>x. x / real (length cols)) (foldl (map2 (+)) c cs))"

text \<open>
  \<^verbatim>\<open>torch.nn.MSELoss()\<close> on two matrices held by their columns: the column counts
  must agree or one of them be one, each pair of columns is broadcast, and the loss is
  the mean of the squared differences over all entries.
\<close>

definition pair_columns :: "tensor list \<Rightarrow> tensor list \<Rightarrow> error + (tensor \<times> tensor) list" where
  "pair_columns xs ys =
     (if length xs = length ys then Inr (zip xs ys)
      else if length xs = 1 then Inr (map (\<lambda>y. (hd xs, y)) ys)
      else if length ys = 1 then Inr (map (\<lambda>x. (x, hd ys)) xs)
      else Inl RuntimeError)"

fun diff_columns :: "(tensor \<times> tensor) list \<Rightarrow> error + tensor list" where
  "diff_columns [] = Inr []"
| "diff_columns ((x, y) # ps) =
     bind_err (broadcast (-) x y) (\<lambda>e. bind_err (diff_columns ps) (\<lambda>es. Inr (e # es)))"

definition criterion :: "tensor list \<Rightarrow> tensor list \<Rightarrow> error + real" where
  "criterion inp tgt =
     bind_err (pair_columns inp tgt) (\<lambda>ps.
     bind_err (diff_columns ps) (\<lambda>es.
     Inr (mean (map (\<lambda>x. x ^ 2) (concat es)))))"

text \<open>\<^verbatim>\<open>[q(o, a) for q in self.model.qs]\<close>: critic \<open>j\<close> with its weights.\<close>

definition q_prediction_list ::
  "('o, 'a, 'z, 's, 'y) redq_net_scheme \<Rightarrow> real list list \<Rightarrow> 'o \<Rightarrow> 'a \<Rightarrow> tensor list" where
  "q_prediction_list ext ps ob a = map (\<lambda>j. qs_forward ext j (ps ! j) ob a) [0..<length ps]"

text \<open>
  \<^verbatim>\<open>[self.model_target.qs[i](o2, a2) for i in sample_idxs]\<close>: an index past the end
  of the list of target critics raises IndexError.
\<close>

fun q_prediction_next_list ::
  "('o, 'a, 'z, 's, 'y) redq_net_scheme \<Rightarrow> real list list \<Rightarrow> 'o \<Rightarrow> 'a \<Rightarrow> nat list
     \<Rightarrow> error + tensor list" where
  "q_prediction_next_list ext tq o2 a2 [] = Inr []"
| "q_prediction_next_list ext tq o2 a2 (i # js) =
     (if i < length tq
      then bind_err (q_prediction_next_list ext tq o2 a2 js) (\<lambda>rest.
             Inr (qs_forward ext i (tq ! i) o2 a2 # rest))
      else Inl IndexError)"

text \<open>Lines 271 to 273: the minimum over the sampled target critics.\<close>

definition redq_min_q ::
  "('o, 'a, 'z, 's, 'y) redq_net_scheme \<Rightarrow> redq_model \<Rightarrow> 'o \<Rightarrow> 'a \<Rightarrow> nat list
     \<Rightarrow> error + tensor" where
  "redq_min_q ext targ o2 a2 sample_idxs =
     bind_err (q_prediction_next_list ext (qs targ) o2 a2 sample_idxs) (\<lambda>nxt.
     bind_err (stack nxt) (\<lambda>cat. Inr (min_dim1 cat)))"

text \<open>Lines 266 to 274: the backup, one entry per transition (shape \<^verbatim>\<open>(B, 1)\<close>).\<close>

definition redq_backup ::
  "('o, 'a, 'z, 's, 'y) redq_net_scheme \<Rightarrow> real \<Rightarrow> redq_model \<Rightarrow> redq_model \<Rightarrow> int \<Rightarrow> int
     \<Rightarrow> real \<Rightarrow> tensor \<Rightarrow> 'o \<Rightarrow> tensor \<Rightarrow> 'z \<Rightarrow> nat list \<Rightarrow> error + tensor" where
  "redq_backup ext gam live targ n k alpha_t r o2 d z2 p =
     (let (a2, logp_a2) = actor_forward ext (actor live) o2 z2 in
      bind_err (random_choice n k p) (\<lambda>sample_idxs.
      bind_err (redq_min_q ext targ o2 a2 sample_idxs) (\<lambda>min_q.
      bind_err (broadcast (-) min_q (scale alpha_t logp_a2)) (\<lambda>v.
      bind_err (broadcast (*) (scale gam (map (\<lambda>x. 1 - x) d)) v) (\<lambda>w.
      broadcast (+) r w)))))"

text \<open>
  Lines 276 to 280: \<^verbatim>\<open>loss_q\<close> as a function of the weights of all live critics. The
  backup has one column (\<^verbatim>\<open>keepdim=True\<close>), so line 278 always expands it to \<open>n\<close>
  columns; \<open>n\<close> is at least one there, the sampling having succeeded with a
  non-empty sample.
\<close>

definition redq_loss_q ::
  "('o, 'a, 'z, 's, 'y) redq_net_scheme \<Rightarrow> 'o \<Rightarrow> 'a \<Rightarrow> int \<Rightarrow> tensor
     \<Rightarrow> real list list \<Rightarrow> error + real" where
  "redq_loss_q ext ob a n backup =
     (\<lambda>ps. bind_err (stack (q_prediction_list ext ps ob a)) (\<lambda>q_prediction_cat.
            criterion q_prediction_cat (replicate (nat n) backup)))"

text \<open>
  Lines 251 and 290 to 293: \<^verbatim>\<open>loss_pi\<close> as a function of the weights of the actor;
  the critics are frozen at the weights \<open>ps\<close>.
\<close>

definition redq_loss_pi ::
  "('o, 'a, 'z, 's, 'y) redq_net_scheme \<Rightarrow> real list list \<Rightarrow> real \<Rightarrow> 'o \<Rightarrow> 'z
     \<Rightarrow> real list \<Rightarrow> error + real" where
  "redq_loss_pi ext ps alpha_t ob z =
     (\<lambda>\<theta>. let (a_pi, logp_pi) = actor_forward ext \<theta> ob z in
        bind_err (stack (q_prediction_list ext ps ob a_pi)) (\<lambda>qs_pi_cat.
        bind_err (broadcast (-) (scale alpha_t logp_pi) (mean_dim1 qs_pi_cat)) (\<lambda>e.
        Inr (mean e))))"

text \<open>
  Lines 282 to 284 and 300 to 301: optimizer \<open>j\<close> owns the weights of critic \<open>j\<close>; its
  gradient is that of \<^verbatim>\<open>loss_q\<close> at the weights before any step.
\<close>

definition step_critics ::
  "('o, 'a, 'z, 's, 'y) redq_net_scheme \<Rightarrow> 's list \<Rightarrow> (real list list \<Rightarrow> error + real)
     \<Rightarrow> real list list \<Rightarrow> ('s \<times> real list) list" where
  "step_critics ext opts loss_q ps =
     map (\<lambda>j. qs_step ext j (opts ! j) (\<lambda>\<theta>. loss_q (ps[j := \<theta>])) (ps ! j))
       [0..<min (length opts) (length ps)]"

text \<open>Lines 306 to 309, over the actor and every critic.\<close>

definition redq_polyak :: "real \<Rightarrow> redq_model \<Rightarrow> redq_model \<Rightarrow> redq_model" where
  "redq_polyak \<rho> live targ =
     targ\<lparr>actor := polyak_avg \<rho> (actor live) (actor targ),
          qs := map2 (polyak_avg \<rho>) (qs live) (qs targ) @ drop (length (qs live)) (qs targ)\<rparr>"

text \<open>
  Lines 266 to 322 of \<^verbatim>\<open>REDQSACAgent.train\<close>: what the call does once
  \<^verbatim>\<open>update_policy\<close>, \<^verbatim>\<open>alpha_t\<close> and \<^verbatim>\<open>loss_alpha\<close> are known and the entropy optimizer
  has stepped (\<open>ag1\<close> is the agent at that point, \<open>loss_alpha_val\<close> the value of
  \<^verbatim>\<open>loss_alpha\<close> or None).
\<close>

definition redq_update ::
  "('o, 'a, 'z, 's, 'y) redq_net_scheme \<Rightarrow> 's redq_agent \<Rightarrow> bool \<Rightarrow> real \<Rightarrow> real option
     \<Rightarrow> ('o, 'a) batch \<Rightarrow> ('z, 'w) redq_rng_scheme
     \<Rightarrow> 's redq_agent \<times> (error + (string \<rightharpoonup> real))" where
  "redq_update ext ag1 update_policy alpha_t loss_alpha_val batch rnd =
     (case batch of (ob, a, r, o2, d) \<Rightarrow>
      case redq_backup ext (gamma ag1) (model ag1) (model_target ag1) (redq_n ag1) (redq_m ag1)
             alpha_t r o2 d (eps_a2 rnd) (perm rnd) of
        Inl e \<Rightarrow> (ag1, Inl e)
      | Inr backup \<Rightarrow>
      let loss_q = redq_loss_q ext ob a (redq_n ag1) backup;
          cur = qs (model ag1) in
      case loss_q cur of
        Inl e \<Rightarrow> (ag1, Inl e)
      | Inr loss_q_val \<Rightarrow>
      let loss_pi_fn = redq_loss_pi ext cur alpha_t ob (eps_pi rnd) in
      case (if update_policy
            then bind_err (loss_pi_fn (actor (model ag1))) (\<lambda>v. Inr (Some v)) else Inr None) of
        Inl e \<Rightarrow> (ag1, Inl e)
      | Inr loss_pi_val \<Rightarrow>
      let stepped = step_critics ext (q_optimizer_list ag1) loss_q cur;
          ag2 = ag1\<lparr>model := (model ag1)\<lparr>qs := map snd stepped @ drop (length stepped) cur\<rparr>,
                    q_optimizer_list :=
                      map fst stepped @ drop (length stepped) (q_optimizer_list ag1)\<rparr>;
          ag3 = (if update_policy
                 then (let (sp, th) = pi_step ext (pi_optimizer ag2) loss_pi_fn (actor (model ag2))
                       in ag2\<lparr>model := (model ag2)\<lparr>actor := th\<rparr>, pi_optimizer := sp\<rparr>)
                 else ag2);
          ag4 = ag3\<lparr>model_target := redq_polyak (polyak ag3) (model ag3) (model_target ag3)\<rparr>;
          ag5 = (case loss_pi_val of None \<Rightarrow> ag4 | Some v \<Rightarrow> ag4\<lparr>loss_pi := v\<rparr>)
      in (ag5, ret_entropy (learn_entropy_coef ag5) loss_alpha_val alpha_t
                 (ret_dict (loss_pi ag5) loss_q_val)))"

text \<open>
  \<^verbatim>\<open>REDQSACAgent.train\<close>: lines 245 to 264, then \<open>redq_update\<close>. \<^verbatim>\<open>pi\<close> and
  \<^verbatim>\<open>logp_pi\<close> are bound only when the policy is updated, and read only then. The result
  is the agent as the call leaves it, and either the exception that ended the call or
  the returned dictionary.
\<close>

definition redq_train ::
  "('o, 'a, 'z, 's, 'y) redq_net_scheme \<Rightarrow> 's redq_agent \<Rightarrow> ('o, 'a) batch
     \<Rightarrow> ('z, 'w) redq_rng_scheme \<Rightarrow> 's redq_agent \<times> (error + (string \<rightharpoonup> real))" where
  "redq_train ext ag batch rnd =
     (let ag0 = ag\<lparr>i_update := i_update ag + 1\<rparr> in
      if q_updates_per_policy_update ag0 = 0 then (ag0, Inl ZeroDivisionError) else
      let update_policy = (i_update ag0 mod q_updates_per_policy_update ag0 = 0);
          logp_pi = (if update_policy
                     then snd (actor_forward ext (actor (model ag0)) (fst batch) (eps_pi rnd))
                     else []) in
      case entropy_coefficient (learn_entropy_coef ag0 \<and> update_policy) ag0 logp_pi of
        Inl e \<Rightarrow> (ag0, Inl e)
      | Inr (alpha_t, loss_alpha) \<Rightarrow>
      let (ag1, loss_alpha_val) = optimize_entropy ext ag0 loss_alpha in
      redq_update ext ag1 update_policy alpha_t loss_alpha_val batch rnd)"

section \<open>Construction\<close>

text \<open>
  The fields of the two dataclasses that \<^verbatim>\<open>__post_init__\<close> reads. The action space
  enters by its shape; \<open>cfg_target_entropy = None\<close> asks for the automatic value.
\<close>

record config =
  cfg_action_shape :: "nat list"
  cfg_gamma :: real
  cfg_polyak :: real
  cfg_alpha :: real
  cfg_lr_actor :: real
  cfg_lr_critic :: real
  cfg_lr_entropy :: real
  cfg_learn_entropy_coef :: bool
  cfg_target_entropy :: "real option"

record redq_config = config +
  cfg_n :: int
  cfg_m :: int
  cfg_q_updates_per_policy_update :: int

text \<open>
  Lines 51 to 62 and 229 to 238. \<open>adam lr\<close> is the state of a fresh
  \<^verbatim>\<open>Adam(..., lr=lr)\<close>.
\<close>

definition init_target_entropy :: "'x config_scheme \<Rightarrow> real" where
  "init_target_entropy cfg =
     (case cfg_target_entropy cfg of
        None \<Rightarrow> - real (prod_list (cfg_action_shape cfg))
      | Some t \<Rightarrow> t)"

definition init_entropy :: "(real \<Rightarrow> 's) \<Rightarrow> 'x config_scheme \<Rightarrow> 's entropy_coef" where
  "init_entropy adam cfg =
     (if cfg_learn_entropy_coef cfg
      then Learned (ln (1 * cfg_alpha cfg)) (adam (cfg_lr_entropy cfg))
      else Fixed (cfg_alpha cfg))"

text \<open>
  \<^verbatim>\<open>SpinupSacAgent.__post_init__\<close> and \<^verbatim>\<open>REDQSACAgent.__post_init__\<close>; \<open>mdl\<close> is the
  model that \<^verbatim>\<open>self.model_cls(observation_space, action_space)\<close> builds, and the
  target is its deep copy. No statement of either method raises, so the result is
  always \<open>Inr\<close>; there is no check of \<open>n\<close>, \<open>m\<close> or the update ratio.
\<close>

definition sac_post_init :: "(real \<Rightarrow> 's) \<Rightarrow> config \<Rightarrow> sac_model \<Rightarrow> error + 's sac_agent" where
  "sac_post_init adam cfg mdl =
     Inr \<lparr>gamma = cfg_gamma cfg, polyak = cfg_polyak cfg,
          learn_entropy_coef = cfg_learn_entropy_coef cfg,
          target_entropy = init_target_entropy cfg,
          model = mdl, model_target = mdl,
          pi_optimizer = adam (cfg_lr_actor cfg),
          entropy = init_entropy adam cfg,
          q_optimizer = adam (cfg_lr_critic cfg)\<rparr>"

definition redq_post_init ::
  "(real \<Rightarrow> 's) \<Rightarrow> redq_config \<Rightarrow> redq_model \<Rightarrow> error + 's redq_agent" where
  "redq_post_init adam cfg mdl =
     Inr \<lparr>gamma = cfg_gamma cfg, polyak = cfg_polyak cfg,
          learn_entropy_coef = cfg_learn_entropy_coef cfg,
          target_entropy = init_target_entropy cfg,
          model = mdl, model_target = mdl,
          pi_optimizer = adam (cfg_lr_actor cfg),
          entropy = init_entropy adam cfg,
          q_optimizer_list = map (\<lambda>q. adam (cfg_lr_critic cfg)) (qs mdl),
          redq_n = cfg_n cfg, redq_m = cfg_m cfg,
          q_updates_per_policy_update = cfg_q_updates_per_policy_update cfg,
          i_update = 0, loss_pi = 0\<rparr>"

section \<open>Example collaborators and inputs\<close>

text \<open>
  Small collaborators on which the steps can be evaluated: observations, actions and
  noise are reals, the actor shifts a linear function of the observation by the noise,
  a critic is linear (one value per observation; a missing action counts as 0), and an optimizer counts its steps and moves every weight it owns
  by the value of the loss (the entropy optimizer: by the forward difference of its
  loss).
\<close>

definition ex_move :: "(('p \<Rightarrow> error + real) \<Rightarrow> 'p \<Rightarrow> real)" where
  "ex_move L p = (case L p of Inl e \<Rightarrow> 0 | Inr v \<Rightarrow> v)"

definition ex_actor :: "real list \<Rightarrow> real list \<Rightarrow> real \<Rightarrow> real list \<times> tensor" where
  "ex_actor \<theta> ob z = (map (\<lambda>x. sum_list \<theta> * x + z) ob, map (\<lambda>x. - (z ^ 2) / 2) ob)"

definition ex_critic :: "real list \<Rightarrow> real list \<Rightarrow> real list \<Rightarrow> tensor" where
  "ex_critic p ob a =
     map (\<lambda>i. sum_list p * ob ! i + (case drop i a of [] \<Rightarrow> 0 | u # us \<Rightarrow> u)) [0..<length ob]"

definition ex_sac_net :: "(real list, real list, real, nat) sac_net" where
  "ex_sac_net =
     \<lparr>actor_forward = ex_actor,
      pi_step = (\<lambda>s L \<theta>. (Suc s, map (\<lambda>w. w - ex_move L \<theta>) \<theta>)),
      alpha_step = (\<lambda>s L la. (Suc s, la - (L (la + 1) - L la))),
      q1_forward = ex_critic,
      q2_forward = ex_critic,
      q_step = (\<lambda>s L (p1, p2).
                  (Suc s, map (\<lambda>w. w - ex_move L (p1, p2)) p1,
                          map (\<lambda>w. w - ex_move L (p1, p2)) p2))\<rparr>"

definition ex_redq_net :: "(real list, real list, real, nat) redq_net" where
  "ex_redq_net =
     \<lparr>actor_forward = ex_actor,
      pi_step = (\<lambda>s L \<theta>. (Suc s, map (\<lambda>w. w - ex_move L \<theta>) \<theta>)),
      alpha_step = (\<lambda>s L la. (Suc s, la - (L (la + 1) - L la))),
      qs_forward = (\<lambda>j. ex_critic),
      qs_step = (\<lambda>j s L p. (Suc s, map (\<lambda>w. w - ex_move L p) p))\<rparr>"

definition ex_batch :: "(real list, real list) batch" where
  "ex_batch = ([1, 2], [0, 1], [1, 0], [2, 3], [0, 1])"

definition ex_rng :: "real redq_rng" where
  "ex_rng = \<lparr>eps_pi = 1, eps_a2 = 0, perm = [0, 1]\<rparr>"


text \<open>A SAC agent with a learned entropy coefficient, some steps into its training.\<close>

definition ex_sac_agent :: "nat sac_agent" where
  "ex_sac_agent =
     \<lparr>gamma = 1 / 2, polyak = 1 / 2, learn_entropy_coef = True, target_entropy = - 1,
      model = \<lparr>actor = [1], q1 = [1], q2 = [2]\<rparr>,
      model_target = \<lparr>actor = [1], q1 = [1], q2 = [3]\<rparr>,
      pi_optimizer = 0, entropy = Learned 0 0, q_optimizer = 0\<rparr>"

definition ex_redq_model :: redq_model where
  "ex_redq_model = \<lparr>actor = [1], qs = [[1], [2]]\<rparr>"

text \<open>
  A REDQ configuration with a learned entropy coefficient and one policy update per
  two calls, and the agent that \<^verbatim>\<open>__post_init__\<close> makes of it.
\<close>

definition ex_redq_config :: redq_config where
  "ex_redq_config =
     \<lparr>cfg_action_shape = [1], cfg_gamma = 1 / 2, cfg_polyak = 1 / 2, cfg_alpha = 1,
      cfg_lr_actor = 0, cfg_lr_critic = 0, cfg_lr_entropy = 0,
      cfg_learn_entropy_coef = True, cfg_target_entropy = None,
      cfg_n = 2, cfg_m = 1, cfg_q_updates_per_policy_update = 2\<rparr>"

definition ex_redq_agent :: "nat redq_agent" where
  "ex_redq_agent =
     \<lparr>gamma = 1 / 2, polyak = 1 / 2, learn_entropy_coef = True, target_entropy = - 1,
      model = ex_redq_model, model_target = ex_redq_model, pi_optimizer = 0,
      entropy = Learned 0 0, q_optimizer_list = [0, 0], redq_n = 2, redq_m = 1,
      q_updates_per_policy_update = 2, i_update = 0, loss_pi = 0\<rparr>"

text \<open>
  A REDQ agent with a fixed entropy coefficient, some steps into its training: the
  next call is its first (no policy update), the one after it updates the policy.
\<close>

definition ex_redq_target :: redq_model where
  "ex_redq_target = \<lparr>actor = [3], qs = [[3], [5]]\<rparr>"

definition ex_redq_fixed :: "nat redq_agent" where
  "ex_redq_fixed =
     \<lparr>gamma = 1 / 2, polyak = 1 / 2, learn_entropy_coef = False, target_entropy = - 1,
      model = ex_redq_model, model_target = ex_redq_target, pi_optimizer = 0,
      entropy = Fixed 1, q_optimizer_list = [0, 0], redq_n = 2, redq_m = 1,
      q_updates_per_policy_update = 2, i_update = 0, loss_pi = 0\<rparr>"

text \<open>
  A REDQ configuration whose subset size exceeds the ensemble size (\<open>m = 3\<close>,
  \<open>n = 2\<close>), with a fixed entropy coefficient, and the agent that \<^verbatim>\<open>__post_init__\<close>
  makes of it.
\<close>

definition ex_bad_config :: redq_config where
  "ex_bad_config =
     \<lparr>cfg_action_shape = [1], cfg_gamma = 1 / 2, cfg_polyak = 1 / 2, cfg_alpha = 1,
      cfg_lr_actor = 0, cfg_lr_critic = 0, cfg_lr_entropy = 0,
      cfg_learn_entropy_coef = False, cfg_target_entropy = None,
      cfg_n = 2, cfg_m = 3, cfg_q_updates_per_policy_update = 1\<rparr>"

definition ex_bad_agent :: "nat redq_agent" where
  "ex_bad_agent =
     \<lparr>gamma = 1 / 2, polyak = 1 / 2, learn_entropy_coef = False, target_entropy = - 1,
      model = ex_redq_model, model_target = ex_redq_model, pi_optimizer = 0,
      entropy = Fixed 1, q_optimizer_list = [0, 0], redq_n = 2, redq_m = 3,
      q_updates_per_policy_update = 1, i_update = 0, loss_pi = 0\<rparr>"


text \<open>
  The SAC agent with a fixed entropy coefficient instead, and the REDQ agent with a
  learned coefficient one call later, when the policy update is due.
\<close>

definition ex_sac_fixed :: "nat sac_agent" where
  "ex_sac_fixed = ex_sac_agent\<lparr>learn_entropy_coef := False, entropy := Fixed 1\<rparr>"

definition ex_redq_due :: "nat redq_agent" where
  "ex_redq_due = ex_redq_agent\<lparr>i_update := 1\<rparr>"

section \<open>The interface of the collaborators\<close>

text \<open>
  The shapes that the batch and the approximator promise for a batch of \<open>B\<close>
  transitions: rewards and done flags have \<open>B\<close> entries, the actor returns \<open>B\<close>
  log-probabilities and every critic \<open>B\<close> values, whatever the weights.
\<close>

definition sac_shapes ::
  "('o, 'a, 'z, 's, 'y) sac_net_scheme \<Rightarrow> nat \<Rightarrow> ('o, 'a) batch \<Rightarrow> ('z, 'w) rng_scheme \<Rightarrow> bool" where
  "sac_shapes ext B batch rnd =
     (case batch of (ob, a, r, o2, d) \<Rightarrow>
        length r = B \<and> length d = B \<and>
        (\<forall>\<theta>. length (snd (actor_forward ext \<theta> ob (eps_pi rnd))) = B) \<and>
        (\<forall>\<theta>. length (snd (actor_forward ext \<theta> o2 (eps_a2 rnd))) = B) \<and>
        (\<forall>p x. length (q1_forward ext p ob x) = B) \<and>
        (\<forall>p x. length (q2_forward ext p ob x) = B) \<and>
        (\<forall>p x. length (q1_forward ext p o2 x) = B) \<and>
        (\<forall>p x. length (q2_forward ext p o2 x) = B))"

definition redq_shapes ::
  "('o, 'a, 'z, 's, 'y) redq_net_scheme \<Rightarrow> nat \<Rightarrow> ('o, 'a) batch \<Rightarrow> ('z, 'w) rng_scheme \<Rightarrow> bool" where
  "redq_shapes ext B batch rnd =
     (case batch of (ob, a, r, o2, d) \<Rightarrow>
        length r = B \<and> length d = B \<and>
        (\<forall>\<theta>. length (snd (actor_forward ext \<theta> ob (eps_pi rnd))) = B) \<and>
        (\<forall>\<theta>. length (snd (actor_forward ext \<theta> o2 (eps_a2 rnd))) = B) \<and>
        (\<forall>j p x. length (qs_forward ext j p ob x) = B) \<and>
        (\<forall>j p x. length (qs_forward ext j p o2 x) = B))"

text \<open>
  What a REDQ call needs to get past its shape and index checks: a well-shaped batch,
  a sample size between one and \<open>n\<close>, \<open>n\<close> live critics (line 278 expands the backup
  to \<open>n\<close> columns) and at least \<open>n\<close> target critics, and the generator's permutation
  of \<^verbatim>\<open>range(n)\<close>.
\<close>

definition redq_ready ::
  "('o, 'a, 'z, 's, 'y) redq_net_scheme \<Rightarrow> nat \<Rightarrow> 's redq_agent \<Rightarrow> ('o, 'a) batch
     \<Rightarrow> ('z, 'w) redq_rng_scheme \<Rightarrow> bool" where
  "redq_ready ext B ag batch rnd =
     (redq_shapes ext B batch rnd \<and> 1 \<le> redq_m ag \<and> redq_m ag \<le> redq_n ag \<and>
      length (qs (model ag)) = nat (redq_n ag) \<and>
      nat (redq_n ag) \<le> length (qs (model_target ag)) \<and>
      distinct (perm rnd) \<and> set (perm rnd) = {0..<nat (redq_n ag)})"

text \<open>
  The entropy attributes as \<^verbatim>\<open>__post_init__\<close> leaves them: \<^verbatim>\<open>log_alpha\<close> and its
  optimizer exactly when \<^verbatim>\<open>learn_entropy_coef\<close> holds, \<^verbatim>\<open>alpha_t\<close> otherwise.
\<close>

definition entropy_consistent :: "('m, 's, 'x) agent_scheme \<Rightarrow> bool" where
  "entropy_consistent ag =
     (case entropy ag of
        Learned la s \<Rightarrow> learn_entropy_coef ag
      | Fixed c \<Rightarrow> \<not> learn_entropy_coef ag)"

text \<open>
  The coefficient a call works with: \<^verbatim>\<open>torch.exp(self.log_alpha.detach())\<close> (lines 88
  and 256) or \<^verbatim>\<open>self.alpha_t\<close> (lines 94 and 259), read before any optimizer step.
\<close>

definition alpha_t_of :: "('m, 's, 'x) agent_scheme \<Rightarrow> real" where
  "alpha_t_of ag = (case entropy ag of Learned la s \<Rightarrow> exp la | Fixed c \<Rightarrow> c)"

section \<open>Basic facts\<close>

lemma bind_err_Inr [simp]: "bind_err (Inr v) f = f v"
  by (simp add: bind_err_def)

lemma bind_err_Inl [simp]: "bind_err (Inl e) f = Inl e"
  by (simp add: bind_err_def)

lemma optimize_entropy_None [simp]: "optimize_entropy ext ag None = (ag, None)"
  by (simp add: optimize_entropy_def)

lemma ret_entropy_True_None [simp]: "ret_entropy True None al ret = Inl AttributeError"
  by (simp add: ret_entropy_def)

lemma ex_redq_agent_constructed:
  "redq_post_init (\<lambda>lr. 0) ex_redq_config ex_redq_model = Inr ex_redq_agent"
  by (simp add: redq_post_init_def ex_redq_config_def ex_redq_agent_def
      init_target_entropy_def init_entropy_def ex_redq_model_def)

section \<open>The SAC step on a well-shaped batch\<close>

lemma broadcast_same:
  "length xs = length ys \<Longrightarrow> broadcast f xs ys = Inr (map2 f xs ys)"
  by (simp add: broadcast_def)

lemma length_scale [simp]: "length (scale c xs) = length xs"
  by (simp add: scale_def)

lemma nth_scale [simp]: "i < length xs \<Longrightarrow> scale c xs ! i = c * xs ! i"
  by (simp add: scale_def)

lemma sac_backup_idx:
  assumes "length r = B" "length d = B"
    and "length (snd (actor_forward ext (actor live) o2 z2)) = B"
    and "\<forall>p x. length (q1_forward ext p o2 x) = B"
    and "\<forall>p x. length (q2_forward ext p o2 x) = B"
  shows "sac_backup ext gam live targ alpha r o2 d z2 =
    Inr (map (\<lambda>i. r ! i + gam * (1 - d ! i) *
           (min (q1_forward ext (q1 targ) o2 (fst (actor_forward ext (actor live) o2 z2)) ! i)
                (q2_forward ext (q2 targ) o2 (fst (actor_forward ext (actor live) o2 z2)) ! i)
            - alpha * snd (actor_forward ext (actor live) o2 z2) ! i)) [0..<B])"
proof -
  obtain a2 logp where al: "actor_forward ext (actor live) o2 z2 = (a2, logp)"
    by (cases "actor_forward ext (actor live) o2 z2")
  have l: "length logp = B" using assms(3) al by simp
  have q: "length (q1_forward ext (q1 targ) o2 a2) = B" "length (q2_forward ext (q2 targ) o2 a2) = B"
    using assms(4,5) by simp_all
  have "sac_backup ext gam live targ alpha r o2 d z2 =
     Inr (map2 (+) r (map2 (*) (scale gam (map (\<lambda>x. 1 - x) d))
        (map2 (-) (map2 min (q1_forward ext (q1 targ) o2 a2) (q2_forward ext (q2 targ) o2 a2))
           (scale alpha logp))))"
    unfolding sac_backup_def sac_q_pi_targ_def al
    by (simp add: broadcast_same l q assms(1,2))
  also have "\<dots> = Inr (map (\<lambda>i. r ! i + gam * (1 - d ! i) *
           (min (q1_forward ext (q1 targ) o2 a2 ! i) (q2_forward ext (q2 targ) o2 a2 ! i)
            - alpha * logp ! i)) [0..<B])"
    using l q assms(1,2) by (auto intro!: nth_equalityI)
  finally show ?thesis by (simp add: al)
qed

lemma mse_idx:
  assumes "length q = B" "length b = B"
  shows "mse q b = Inr (mean (map (\<lambda>i. (q ! i - b ! i) ^ 2) [0..<B]))"
proof -
  have "map (\<lambda>x. x ^ 2) (map2 (-) q b) = map (\<lambda>i. (q ! i - b ! i) ^ 2) [0..<B]"
    using assms by (auto intro!: nth_equalityI)
  then show ?thesis using assms by (simp add: mse_def broadcast_same)
qed

lemma sac_loss_q_idx:
  assumes "length backup = B"
    and "\<forall>p x. length (q1_forward ext p ob x) = B"
    and "\<forall>p x. length (q2_forward ext p ob x) = B"
  shows "sac_loss_q ext ob a backup (p1, p2) =
     Inr ((mean (map (\<lambda>i. (q1_forward ext p1 ob a ! i - backup ! i) ^ 2) [0..<B]) +
           mean (map (\<lambda>i. (q2_forward ext p2 ob a ! i - backup ! i) ^ 2) [0..<B])) / 2)"
  using assms by (simp add: sac_loss_q_def mse_idx[where B=B])

lemma sac_loss_pi_idx:
  assumes "length (snd (actor_forward ext \<theta> ob z)) = B"
    and "\<forall>p x. length (q1_forward ext p ob x) = B"
    and "\<forall>p x. length (q2_forward ext p ob x) = B"
  shows "sac_loss_pi ext p1 p2 alpha ob z \<theta> =
     Inr (mean (map (\<lambda>i. alpha * snd (actor_forward ext \<theta> ob z) ! i -
                  min (q1_forward ext p1 ob (fst (actor_forward ext \<theta> ob z)) ! i)
                      (q2_forward ext p2 ob (fst (actor_forward ext \<theta> ob z)) ! i)) [0..<B]))"
proof -
  obtain a_pi logp where al: "actor_forward ext \<theta> ob z = (a_pi, logp)"
    by (cases "actor_forward ext \<theta> ob z")
  have l: "length logp = B" using assms(1) al by simp
  have q: "length (q1_forward ext p1 ob a_pi) = B" "length (q2_forward ext p2 ob a_pi) = B"
    using assms(2,3) by simp_all
  have "map2 (-) (scale alpha logp) (map2 min (q1_forward ext p1 ob a_pi) (q2_forward ext p2 ob a_pi))
      = map (\<lambda>i. alpha * logp ! i - min (q1_forward ext p1 ob a_pi ! i) (q2_forward ext p2 ob a_pi ! i)) [0..<B]"
    using l q by (auto intro!: nth_equalityI)
  then show ?thesis
    unfolding sac_loss_pi_def al by (simp add: broadcast_same l q)
qed

lemma optimize_entropy_frame:
  assumes "optimize_entropy ext ag la = (ag1, lav)"
  shows "ag1 = ag\<lparr>entropy := entropy ag1\<rparr>"
  using assms by (auto simp: optimize_entropy_def split: option.splits entropy_coef.splits prod.splits)

lemma entropy_coefficient_consistent:
  assumes "entropy_consistent ag"
  shows "entropy_coefficient (learn_entropy_coef ag) ag logp =
     Inr (alpha_t_of ag,
          if learn_entropy_coef ag then Some (loss_alpha_fn (target_entropy ag) logp) else None)"
  using assms
  by (auto simp: entropy_consistent_def entropy_coefficient_def alpha_t_of_def split: entropy_coef.splits)

lemma sac_train_success:
  assumes sh: "sac_shapes ext B (ob, a, r, o2, d) rnd" and ec: "entropy_consistent ag"
  obtains ag1 lav backup lqv sq p1 p2 lpv sp th where
    "optimize_entropy ext ag
       (if learn_entropy_coef ag
        then Some (loss_alpha_fn (target_entropy ag)
                     (snd (actor_forward ext (actor (model ag)) ob (eps_pi rnd))))
        else None) = (ag1, lav)"
    "sac_backup ext (gamma ag) (model ag) (model_target ag) (alpha_t_of ag) r o2 d (eps_a2 rnd)
       = Inr backup"
    "length backup = B"
    "sac_loss_q ext ob a backup (q1 (model ag), q2 (model ag)) = Inr lqv"
    "q_step ext (q_optimizer ag) (sac_loss_q ext ob a backup) (q1 (model ag), q2 (model ag))
       = (sq, p1, p2)"
    "sac_loss_pi ext p1 p2 (alpha_t_of ag) ob (eps_pi rnd) (actor (model ag)) = Inr lpv"
    "pi_step ext (pi_optimizer ag) (sac_loss_pi ext p1 p2 (alpha_t_of ag) ob (eps_pi rnd))
       (actor (model ag)) = (sp, th)"
    "sac_train ext ag (ob, a, r, o2, d) rnd =
       (ag1\<lparr>q_optimizer := sq,
            model := (model ag)\<lparr>q1 := p1, q2 := p2, actor := th\<rparr>,
            pi_optimizer := sp,
            model_target := sac_polyak (polyak ag) ((model ag)\<lparr>q1 := p1, q2 := p2, actor := th\<rparr>)
                              (model_target ag)\<rparr>,
        ret_entropy (learn_entropy_coef ag) lav (alpha_t_of ag) (ret_dict lpv lqv))"
proof -
  obtain a_pi logp where al: "actor_forward ext (actor (model ag)) ob (eps_pi rnd) = (a_pi, logp)"
    by (cases "actor_forward ext (actor (model ag)) ob (eps_pi rnd)")
  define la where "la = (if learn_entropy_coef ag
     then Some (loss_alpha_fn (target_entropy ag) logp) else None)"
  have ecf: "entropy_coefficient (learn_entropy_coef ag) ag logp = Inr (alpha_t_of ag, la)"
    unfolding la_def by (rule entropy_coefficient_consistent[OF ec])
  from sh have shp:
    "length r = B" "length d = B"
    "\<forall>\<theta>. length (snd (actor_forward ext \<theta> ob (eps_pi rnd))) = B"
    "\<forall>\<theta>. length (snd (actor_forward ext \<theta> o2 (eps_a2 rnd))) = B"
    "\<forall>p x. length (q1_forward ext p ob x) = B" "\<forall>p x. length (q2_forward ext p ob x) = B"
    "\<forall>p x. length (q1_forward ext p o2 x) = B" "\<forall>p x. length (q2_forward ext p o2 x) = B"
    by (simp_all add: sac_shapes_def)
  obtain ag1 lav where oe: "optimize_entropy ext ag la = (ag1, lav)"
    by (cases "optimize_entropy ext ag la")
  note fr = optimize_entropy_frame[OF oe]
  have f1: "gamma ag1 = gamma ag" "model ag1 = model ag" "model_target ag1 = model_target ag"
    "q_optimizer ag1 = q_optimizer ag" "pi_optimizer ag1 = pi_optimizer ag" "polyak ag1 = polyak ag"
    "learn_entropy_coef ag1 = learn_entropy_coef ag"
    by (subst fr, simp)+
  obtain backup where bk: "sac_backup ext (gamma ag) (model ag) (model_target ag) (alpha_t_of ag)
      r o2 d (eps_a2 rnd) = Inr backup" and lb: "length backup = B"
    using sac_backup_idx[OF shp(1,2) shp(4)[rule_format] shp(7,8)] by force
  obtain lqv where lq: "sac_loss_q ext ob a backup (q1 (model ag), q2 (model ag)) = Inr lqv"
    using sac_loss_q_idx[OF lb shp(5,6)] by blast
  obtain sq p1 p2 where qs: "q_step ext (q_optimizer ag) (sac_loss_q ext ob a backup)
      (q1 (model ag), q2 (model ag)) = (sq, p1, p2)"
    by (cases "q_step ext (q_optimizer ag) (sac_loss_q ext ob a backup) (q1 (model ag), q2 (model ag))")
  obtain lpv where lp: "sac_loss_pi ext p1 p2 (alpha_t_of ag) ob (eps_pi rnd) (actor (model ag)) = Inr lpv"
    using sac_loss_pi_idx[OF shp(3)[rule_format] shp(5,6)] by blast
  obtain sp th where ps: "pi_step ext (pi_optimizer ag)
      (sac_loss_pi ext p1 p2 (alpha_t_of ag) ob (eps_pi rnd)) (actor (model ag)) = (sp, th)"
    by (cases "pi_step ext (pi_optimizer ag)
      (sac_loss_pi ext p1 p2 (alpha_t_of ag) ob (eps_pi rnd)) (actor (model ag))")
  have "sac_train ext ag (ob, a, r, o2, d) rnd =
       (ag1\<lparr>q_optimizer := sq,
            model := (model ag)\<lparr>q1 := p1, q2 := p2, actor := th\<rparr>,
            pi_optimizer := sp,
            model_target := sac_polyak (polyak ag) ((model ag)\<lparr>q1 := p1, q2 := p2, actor := th\<rparr>)
                              (model_target ag)\<rparr>,
        ret_entropy (learn_entropy_coef ag) lav (alpha_t_of ag) (ret_dict lpv lqv))"
    unfolding sac_train_def
    by (simp add: al ecf oe f1 bk lq qs lp ps)
  moreover have "optimize_entropy ext ag
       (if learn_entropy_coef ag
        then Some (loss_alpha_fn (target_entropy ag)
                     (snd (actor_forward ext (actor (model ag)) ob (eps_pi rnd))))
        else None) = (ag1, lav)"
    using oe by (auto simp: la_def al)
  ultimately show thesis using bk lb lq qs lp ps by (rule that[rotated -1])
qed

lemma optimize_entropy_learned:
  assumes "entropy ag = Learned la s"
  shows "optimize_entropy ext ag (Some L) =
    (ag\<lparr>entropy := Learned (snd (alpha_step ext s L la)) (fst (alpha_step ext s L la))\<rparr>, Some (L la))"
  using assms by (simp add: optimize_entropy_def split: prod.splits)

lemma ret_entropy_success:
  assumes "entropy_consistent ag"
    and "optimize_entropy ext ag
       (if learn_entropy_coef ag then Some L else None) = (ag1, lav)"
  shows "ret_entropy (learn_entropy_coef ag) lav al ret =
     Inr (if learn_entropy_coef ag
          then ret(''loss_entropy_coef'' \<mapsto> the lav, ''entropy_coef'' \<mapsto> al) else ret)"
  using assms
  by (cases "entropy ag")
     (auto simp: entropy_consistent_def ret_entropy_def optimize_entropy_learned)

lemma ex_sac_shapes: "sac_shapes ex_sac_net 2 ([1, 2], [0, 1], [1, 0], [2, 3], [0, 1]) ex_rng"
  by (simp add: sac_shapes_def ex_sac_net_def ex_actor_def ex_critic_def)

lemma ex_sac_consistent: "entropy_consistent ex_sac_agent"
  by (simp add: entropy_consistent_def ex_sac_agent_def)

lemmas ex_eval = ex_sac_agent_def ex_sac_net_def ex_actor_def ex_critic_def ex_rng_def
  alpha_t_of_def mean_def upt_rec ex_batch_def

section \<open>The SAC critic update\<close>

text \<open>
  Claim C1. On a well-shaped batch the backup of the SAC step is, entry by entry,
  \<open>r + gamma * (1 - d) * (min (target_q1 (o2, a2)) (target_q2 (o2, a2)) - alpha_t * logp_a2)\<close>
  with \<open>(a2, logp_a2)\<close> sampled from the live actor at the next observations. The
  backup is a constant of the critic loss (it is computed without gradient tracking):
  the loss handed to the critic optimizer is, as a function of the weights of the two
  live critics, the mean of their two mean-squared errors against that backup. The
  critic weights and the optimizer state after the call are those of one optimizer
  step on that loss, and the returned \<^verbatim>\<open>loss_critic\<close> is its value at the weights
  before the step.
\<close>

theorem sac_critic_loss_is_mse_against_bellman_backup:
  fixes ext :: "('o, 'a, 'z, 's, 'y) sac_net_scheme" and ag :: "'s sac_agent"
    and rnd :: "('z, 'w) rng_scheme" and ob o2 :: 'o and a :: 'a and r d :: tensor and B :: nat
  defines "a2 \<equiv> fst (actor_forward ext (actor (model ag)) o2 (eps_a2 rnd))"
    and "logp_a2 \<equiv> snd (actor_forward ext (actor (model ag)) o2 (eps_a2 rnd))"
  defines "backup \<equiv> map (\<lambda>i. r ! i + gamma ag * (1 - d ! i) *
             (min (q1_forward ext (q1 (model_target ag)) o2 a2 ! i)
                  (q2_forward ext (q2 (model_target ag)) o2 a2 ! i)
              - alpha_t_of ag * logp_a2 ! i)) [0..<B]"
  defines "loss_q \<equiv> \<lambda>(p1, p2).
             (mean (map (\<lambda>i. (q1_forward ext p1 ob a ! i - backup ! i) ^ 2) [0..<B]) +
              mean (map (\<lambda>i. (q2_forward ext p2 ob a ! i - backup ! i) ^ 2) [0..<B])) / 2"
  assumes sh: "sac_shapes ext B (ob, a, r, o2, d) rnd" and ec: "entropy_consistent ag"
  shows "sac_backup ext (gamma ag) (model ag) (model_target ag) (alpha_t_of ag) r o2 d (eps_a2 rnd)
           = Inr backup
       \<and> sac_loss_q ext ob a backup = (\<lambda>p. Inr (loss_q p))
       \<and> (\<exists>ret. snd (sac_train ext ag (ob, a, r, o2, d) rnd) = Inr ret
             \<and> ret ''loss_critic'' = Some (loss_q (q1 (model ag), q2 (model ag))))
       \<and> (q_optimizer (fst (sac_train ext ag (ob, a, r, o2, d) rnd)),
           q1 (model (fst (sac_train ext ag (ob, a, r, o2, d) rnd))),
           q2 (model (fst (sac_train ext ag (ob, a, r, o2, d) rnd))))
          = q_step ext (q_optimizer ag) (\<lambda>p. Inr (loss_q p)) (q1 (model ag), q2 (model ag))"
proof -
  from sh have shp:
    "length r = B" "length d = B"
    "\<forall>\<theta>. length (snd (actor_forward ext \<theta> o2 (eps_a2 rnd))) = B"
    "\<forall>p x. length (q1_forward ext p ob x) = B" "\<forall>p x. length (q2_forward ext p ob x) = B"
    "\<forall>p x. length (q1_forward ext p o2 x) = B" "\<forall>p x. length (q2_forward ext p o2 x) = B"
    by (simp_all add: sac_shapes_def)
  have bk: "sac_backup ext (gamma ag) (model ag) (model_target ag) (alpha_t_of ag) r o2 d
      (eps_a2 rnd) = Inr backup"
    unfolding backup_def a2_def logp_a2_def
    by (rule sac_backup_idx[OF shp(1,2) shp(3)[rule_format] shp(6,7)])
  have lb: "length backup = B" by (simp add: backup_def)
  have lq: "sac_loss_q ext ob a backup = (\<lambda>p. Inr (loss_q p))"
  proof
    fix p :: "real list \<times> real list"
    obtain p1 p2 where p: "p = (p1, p2)" by (cases p)
    show "sac_loss_q ext ob a backup p = Inr (loss_q p)"
      unfolding p loss_q_def by (simp add: sac_loss_q_idx[OF lb shp(4,5)])
  qed
  obtain ag1 lav bk' lqv sq p1 p2 lpv sp th where
    oe: "optimize_entropy ext ag
       (if learn_entropy_coef ag
        then Some (loss_alpha_fn (target_entropy ag)
                     (snd (actor_forward ext (actor (model ag)) ob (eps_pi rnd))))
        else None) = (ag1, lav)"
    and bk': "sac_backup ext (gamma ag) (model ag) (model_target ag) (alpha_t_of ag) r o2 d (eps_a2 rnd)
       = Inr bk'"
    and "length bk' = B"
    and lqv: "sac_loss_q ext ob a bk' (q1 (model ag), q2 (model ag)) = Inr lqv"
    and qs: "q_step ext (q_optimizer ag) (sac_loss_q ext ob a bk') (q1 (model ag), q2 (model ag))
       = (sq, p1, p2)"
    and "sac_loss_pi ext p1 p2 (alpha_t_of ag) ob (eps_pi rnd) (actor (model ag)) = Inr lpv"
    and "pi_step ext (pi_optimizer ag) (sac_loss_pi ext p1 p2 (alpha_t_of ag) ob (eps_pi rnd))
       (actor (model ag)) = (sp, th)"
    and tr: "sac_train ext ag (ob, a, r, o2, d) rnd =
       (ag1\<lparr>q_optimizer := sq,
            model := (model ag)\<lparr>q1 := p1, q2 := p2, actor := th\<rparr>,
            pi_optimizer := sp,
            model_target := sac_polyak (polyak ag) ((model ag)\<lparr>q1 := p1, q2 := p2, actor := th\<rparr>)
                              (model_target ag)\<rparr>,
        ret_entropy (learn_entropy_coef ag) lav (alpha_t_of ag) (ret_dict lpv lqv))"
    by (rule sac_train_success[OF sh ec])
  have e: "bk' = backup" using bk bk' by simp
  have v: "lqv = loss_q (q1 (model ag), q2 (model ag))"
    using lqv unfolding e lq by simp
  have ret: "\<exists>ret. snd (sac_train ext ag (ob, a, r, o2, d) rnd) = Inr ret
             \<and> ret ''loss_critic'' = Some (loss_q (q1 (model ag), q2 (model ag)))"
    unfolding tr by (simp add: ret_entropy_success[OF ec oe] ret_dict_def v)
  have st: "(q_optimizer (fst (sac_train ext ag (ob, a, r, o2, d) rnd)),
           q1 (model (fst (sac_train ext ag (ob, a, r, o2, d) rnd))),
           q2 (model (fst (sac_train ext ag (ob, a, r, o2, d) rnd))))
          = q_step ext (q_optimizer ag) (\<lambda>p. Inr (loss_q p)) (q1 (model ag), q2 (model ag))"
    unfolding tr using qs unfolding e lq by simp
  from bk lq ret st show ?thesis by (intro conjI)
qed

theorem sac_critic_loss_is_mse_against_bellman_backup_witness:
  "sac_backup ex_sac_net (gamma ex_sac_agent) (model ex_sac_agent) (model_target ex_sac_agent)
      (alpha_t_of ex_sac_agent) [1, 0] [2, 3] [0, 1] (eps_a2 ex_rng) = Inr [3, 0]
   \<and> (\<exists>ret. snd (sac_train ex_sac_net ex_sac_agent ex_batch ex_rng) = Inr ret
          \<and> ret ''loss_critic'' = Some (39 / 4))"
proof -
  note th = sac_critic_loss_is_mse_against_bellman_backup[OF ex_sac_shapes ex_sac_consistent]
  have 1: "sac_backup ex_sac_net (gamma ex_sac_agent) (model ex_sac_agent) (model_target ex_sac_agent)
      (alpha_t_of ex_sac_agent) [1, 0] [2, 3] [0, 1] (eps_a2 ex_rng) = Inr [3, 0]"
    using th[THEN conjunct1] by (simp add: ex_eval)
  have 2: "\<exists>ret. snd (sac_train ex_sac_net ex_sac_agent ex_batch ex_rng) = Inr ret
          \<and> ret ''loss_critic'' = Some (39 / 4)"
    using th[THEN conjunct2, THEN conjunct2, THEN conjunct1] by (simp add: ex_eval)
  from 1 2 show ?thesis by (rule conjI)
qed

section \<open>The SAC actor update\<close>

lemma ex_sac_critics_after:
  "q1 (model (fst (sac_train ex_sac_net ex_sac_agent ex_batch ex_rng))) = [- 35 / 4]"
  "q2 (model (fst (sac_train ex_sac_net ex_sac_agent ex_batch ex_rng))) = [- 31 / 4]"
  by (simp_all add: sac_train_def ex_eval ex_move_def entropy_coefficient_def optimize_entropy_def
      sac_backup_def sac_q_pi_targ_def broadcast_def scale_def sac_loss_q_def mse_def
      sac_loss_pi_def loss_alpha_fn_def)

text \<open>
  Claim C4. On a well-shaped batch the loss handed to the actor optimizer is, as a
  function of the actor weights, \<open>mean (alpha_t * logp_pi - min (q1 (o, pi)) (q2 (o, pi)))\<close>,
  where \<open>(pi, logp_pi)\<close> is the output of the actor under the noise drawn at line 75
  (no other noise enters) and the critics carry the weights they have after the critic
  step of the same call. The actor weights and the optimizer state after the call are
  those of one optimizer step on that loss, and the returned \<^verbatim>\<open>loss_actor\<close> is its value
  at the sample of line 75.
\<close>

theorem sac_actor_loss_uses_first_sample:
  fixes ext :: "('o, 'a, 'z, 's, 'y) sac_net_scheme" and ag :: "'s sac_agent"
    and rnd :: "('z, 'w) rng_scheme" and ob o2 :: 'o and a :: 'a and r d :: tensor and B :: nat
  defines "ag' \<equiv> fst (sac_train ext ag (ob, a, r, o2, d) rnd)"
  defines "loss_pi_fn \<equiv> \<lambda>\<theta>.
     mean (map (\<lambda>i. alpha_t_of ag * snd (actor_forward ext \<theta> ob (eps_pi rnd)) ! i -
                  min (q1_forward ext (q1 (model ag')) ob
                         (fst (actor_forward ext \<theta> ob (eps_pi rnd))) ! i)
                      (q2_forward ext (q2 (model ag')) ob
                         (fst (actor_forward ext \<theta> ob (eps_pi rnd))) ! i)) [0..<B])"
  assumes sh: "sac_shapes ext B (ob, a, r, o2, d) rnd" and ec: "entropy_consistent ag"
  shows "sac_loss_pi ext (q1 (model ag')) (q2 (model ag')) (alpha_t_of ag) ob (eps_pi rnd)
           = (\<lambda>\<theta>. Inr (loss_pi_fn \<theta>))
       \<and> (\<exists>ret. snd (sac_train ext ag (ob, a, r, o2, d) rnd) = Inr ret
             \<and> ret ''loss_actor'' = Some (loss_pi_fn (actor (model ag))))
       \<and> (pi_optimizer ag', actor (model ag'))
          = pi_step ext (pi_optimizer ag) (\<lambda>\<theta>. Inr (loss_pi_fn \<theta>)) (actor (model ag))"
proof -
  from sh have shp:
    "\<forall>\<theta>. length (snd (actor_forward ext \<theta> ob (eps_pi rnd))) = B"
    "\<forall>p x. length (q1_forward ext p ob x) = B" "\<forall>p x. length (q2_forward ext p ob x) = B"
    by (simp_all add: sac_shapes_def)
  obtain ag1 lav bk lqv sq p1 p2 lpv sp th where
    oe: "optimize_entropy ext ag
       (if learn_entropy_coef ag
        then Some (loss_alpha_fn (target_entropy ag)
                     (snd (actor_forward ext (actor (model ag)) ob (eps_pi rnd))))
        else None) = (ag1, lav)"
    and "sac_backup ext (gamma ag) (model ag) (model_target ag) (alpha_t_of ag) r o2 d (eps_a2 rnd)
       = Inr bk"
    and "length bk = B"
    and "sac_loss_q ext ob a bk (q1 (model ag), q2 (model ag)) = Inr lqv"
    and "q_step ext (q_optimizer ag) (sac_loss_q ext ob a bk) (q1 (model ag), q2 (model ag))
       = (sq, p1, p2)"
    and lp: "sac_loss_pi ext p1 p2 (alpha_t_of ag) ob (eps_pi rnd) (actor (model ag)) = Inr lpv"
    and ps: "pi_step ext (pi_optimizer ag) (sac_loss_pi ext p1 p2 (alpha_t_of ag) ob (eps_pi rnd))
       (actor (model ag)) = (sp, th)"
    and tr: "sac_train ext ag (ob, a, r, o2, d) rnd =
       (ag1\<lparr>q_optimizer := sq,
            model := (model ag)\<lparr>q1 := p1, q2 := p2, actor := th\<rparr>,
            pi_optimizer := sp,
            model_target := sac_polyak (polyak ag) ((model ag)\<lparr>q1 := p1, q2 := p2, actor := th\<rparr>)
                              (model_target ag)\<rparr>,
        ret_entropy (learn_entropy_coef ag) lav (alpha_t_of ag) (ret_dict lpv lqv))"
    by (rule sac_train_success[OF sh ec])
  have q': "q1 (model ag') = p1" "q2 (model ag') = p2"
    and a': "actor (model ag') = th" "pi_optimizer ag' = sp"
    unfolding ag'_def tr by simp_all
  have cl: "sac_loss_pi ext p1 p2 (alpha_t_of ag) ob (eps_pi rnd) = (\<lambda>\<theta>. Inr (loss_pi_fn \<theta>))"
  proof
    fix \<theta>
    show "sac_loss_pi ext p1 p2 (alpha_t_of ag) ob (eps_pi rnd) \<theta> = Inr (loss_pi_fn \<theta>)"
      unfolding loss_pi_fn_def q'
      by (rule sac_loss_pi_idx[OF shp(1)[rule_format] shp(2,3)])
  qed
  have v: "lpv = loss_pi_fn (actor (model ag))"
    using lp unfolding cl by simp
  have 1: "sac_loss_pi ext (q1 (model ag')) (q2 (model ag')) (alpha_t_of ag) ob (eps_pi rnd)
           = (\<lambda>\<theta>. Inr (loss_pi_fn \<theta>))"
    unfolding q' by (rule cl)
  have 2: "\<exists>ret. snd (sac_train ext ag (ob, a, r, o2, d) rnd) = Inr ret
             \<and> ret ''loss_actor'' = Some (loss_pi_fn (actor (model ag)))"
    unfolding tr by (simp add: ret_entropy_success[OF ec oe] ret_dict_def v)
  have 3: "(pi_optimizer ag', actor (model ag'))
          = pi_step ext (pi_optimizer ag) (\<lambda>\<theta>. Inr (loss_pi_fn \<theta>)) (actor (model ag))"
    unfolding a' using ps unfolding cl by simp
  from 1 2 3 show ?thesis by (intro conjI)
qed

theorem sac_actor_loss_uses_first_sample_witness:
  "\<exists>ret. snd (sac_train ex_sac_net ex_sac_agent ex_batch ex_rng) = Inr ret
          \<and> ret ''loss_actor'' = Some (81 / 8)"
proof -
  note th = sac_actor_loss_uses_first_sample[OF ex_sac_shapes ex_sac_consistent]
  note q = ex_sac_critics_after
  show ?thesis
    using th[THEN conjunct2, THEN conjunct1] q by (simp add: ex_eval)
qed

section \<open>The value term of the backup\<close>

lemma q_prediction_next_list_ok:
  assumes "\<forall>i\<in>set idxs. i < length tq"
  shows "q_prediction_next_list ext tq o2 a2 idxs =
           Inr (map (\<lambda>i. qs_forward ext i (tq ! i) o2 a2) idxs)"
  using assms by (induction idxs) simp_all

lemma stack_ok:
  assumes "cols \<noteq> []" and "\<forall>c\<in>set cols. length c = B"
  shows "stack cols = Inr cols"
  using assms by (cases cols) (auto simp: stack_def list_all_iff)

lemma foldl_min_length:
  assumes "length c = B" and "\<forall>x\<in>set cs. length x = B"
  shows "length (foldl (map2 min) c cs) = B"
  using assms by (induction cs arbitrary: c) simp_all




lemma random_choice_ok:
  assumes "0 \<le> k" "k \<le> n"
  shows "random_choice n k p = Inr (take (nat k) p)"
  using assms by (auto simp: random_choice_def)

lemma ex_redq_shapes: "redq_shapes ex_redq_net 2 ([1, 2], [0, 1], [1, 0], [2, 3], [0, 1]) ex_rng"
  by (simp add: redq_shapes_def ex_redq_net_def ex_actor_def ex_critic_def)



section \<open>The course of a REDQ call\<close>



lemma entropy_coefficient_i_update [simp]:
  "entropy_coefficient l (ag\<lparr>i_update := x\<rparr>) lp = entropy_coefficient l ag lp"
  by (simp add: entropy_coefficient_def split: entropy_coef.splits)

lemma optimize_entropy_i_update:
  "optimize_entropy ext (ag\<lparr>i_update := x\<rparr>) la =
     ((fst (optimize_entropy ext ag la))\<lparr>i_update := x\<rparr>, snd (optimize_entropy ext ag la))"
  by (auto simp: optimize_entropy_def split: option.splits entropy_coef.splits prod.splits)

text \<open>The three ways a REDQ call can go before line 266.\<close>

lemma redq_train_cases:
  fixes ag :: "'s redq_agent" and ext :: "('o, 'a, 'z, 's, 'y) redq_net_scheme"
    and batch :: "('o, 'a) batch" and rnd :: "('z, 'w) redq_rng_scheme"
  defines "up \<equiv> ((i_update ag + 1) mod q_updates_per_policy_update ag = 0)"
  defines "logp \<equiv> (if up then snd (actor_forward ext (actor (model ag)) (fst batch) (eps_pi rnd))
                     else [])"
  obtains
    (zero) "q_updates_per_policy_update ag = 0"
      "redq_train ext ag batch rnd = (ag\<lparr>i_update := i_update ag + 1\<rparr>, Inl ZeroDivisionError)"
  | (attr) e where "q_updates_per_policy_update ag \<noteq> 0"
      "entropy_coefficient (learn_entropy_coef ag \<and> up) ag logp = Inl e"
      "redq_train ext ag batch rnd = (ag\<lparr>i_update := i_update ag + 1\<rparr>, Inl e)"
  | (update) alpha la ag1 lav where "q_updates_per_policy_update ag \<noteq> 0"
      "entropy_coefficient (learn_entropy_coef ag \<and> up) ag logp = Inr (alpha, la)"
      "optimize_entropy ext ag la = (ag1, lav)"
      "redq_train ext ag batch rnd =
         redq_update ext (ag1\<lparr>i_update := i_update ag + 1\<rparr>) up alpha lav batch rnd"
proof (cases "q_updates_per_policy_update ag = 0")
  case True
  then have "redq_train ext ag batch rnd =
      (ag\<lparr>i_update := i_update ag + 1\<rparr>, Inl ZeroDivisionError)"
    by (simp add: redq_train_def)
  with True show thesis by (rule zero)
next
  case k: False
  show thesis
  proof (cases "entropy_coefficient (learn_entropy_coef ag \<and> up) ag logp")
    case (Inl e)
    then have "redq_train ext ag batch rnd = (ag\<lparr>i_update := i_update ag + 1\<rparr>, Inl e)"
      using k unfolding up_def logp_def
      by (cases "(i_update ag + 1) mod q_updates_per_policy_update ag = 0")
         (simp_all add: redq_train_def Let_def)
    with k Inl show thesis by (rule attr)
  next
    case (Inr x)
    obtain alpha la where x: "x = (alpha, la)" by (cases x)
    obtain ag1 lav where oe: "optimize_entropy ext ag la = (ag1, lav)"
      by (cases "optimize_entropy ext ag la")
    have "redq_train ext ag batch rnd =
         redq_update ext (ag1\<lparr>i_update := i_update ag + 1\<rparr>) up alpha lav batch rnd"
      using k Inr unfolding x up_def logp_def
      by (cases "(i_update ag + 1) mod q_updates_per_policy_update ag = 0")
         (simp_all add: redq_train_def Let_def optimize_entropy_i_update oe)
    with k Inr[unfolded x] oe show thesis by (rule update)
  qed
qed



section \<open>The example calls, evaluated\<close>

lemmas redq_eval = redq_train_def redq_update_def entropy_coefficient_def optimize_entropy_def
  redq_backup_def random_choice_def redq_min_q_def stack_def min_dim1_def mean_dim1_def
  redq_loss_q_def criterion_def pair_columns_def q_prediction_list_def redq_loss_pi_def
  step_critics_def redq_polyak_def polyak_avg_def ret_entropy_def ret_dict_def
  broadcast_def scale_def mean_def ex_redq_net_def ex_actor_def ex_critic_def ex_move_def
  ex_batch_def ex_rng_def ex_redq_model_def ex_redq_target_def upt_rec Let_def
  eval_nat_numeral




section \<open>The target networks\<close>

lemma length_polyak_avg [simp]: "length (polyak_avg \<rho> ps ts) = length ts"
  by (simp add: polyak_avg_def)


lemma map2_snd_take: "map2 (\<lambda>p t. t) ps ts = take (length ps) ts"
proof (induction ps arbitrary: ts)
  case Nil
  then show ?case by simp
next
  case (Cons p ps)
  then show ?case by (cases ts) simp_all
qed

lemma polyak_avg_one [simp]: "polyak_avg 1 ps ts = ts"
  by (simp add: polyak_avg_def map2_snd_take)


lemma sac_polyak_one [simp]: "sac_polyak 1 live targ = targ"
  by (simp add: sac_polyak_def)

lemma redq_polyak_one [simp]: "redq_polyak 1 live targ = targ"
proof -
  have "(\<lambda>(x, y). polyak_avg 1 x y) = (\<lambda>(x :: real list, y). y)" by auto
  then show ?thesis by (simp add: redq_polyak_def map2_snd_take)
qed







section \<open>REDQ calls on which the policy is not updated\<close>

text \<open>
  Claim C6 says that every REDQ call with a learned entropy coefficient returns the
  dictionary with the four keys, also when the policy is not updated. The code does
  not: when \<^verbatim>\<open>learn_entropy_coef\<close> holds and the call is not a policy update, the call
  never returns. Either line 259 reads \<^verbatim>\<open>self.alpha_t\<close>, which \<^verbatim>\<open>__post_init__\<close> did not
  create, or (were the attribute there) line 319 calls \<^verbatim>\<open>detach\<close> on
  \<^verbatim>\<open>loss_alpha = None\<close>.
\<close>

theorem redq_learned_entropy_call_without_policy_update_raises:
  assumes "learn_entropy_coef ag" and "q_updates_per_policy_update ag \<noteq> 0"
    and "(i_update ag + 1) mod q_updates_per_policy_update ag \<noteq> 0"
  shows "isl (snd (redq_train ext ag batch rnd))"
proof (cases "entropy ag")
  case (Learned la s)
  then show ?thesis using assms
    by (simp add: redq_train_def entropy_coefficient_def)
next
  case (Fixed c)
  then show ?thesis using assms
    by (simp add: redq_train_def redq_update_def entropy_coefficient_def Let_def
        split: prod.splits sum.splits)
qed

theorem redq_learned_entropy_call_without_policy_update_raises_witness:
  "isl (snd (redq_train ex_redq_net ex_redq_agent ex_batch ex_rng))"
proof -
  have "learn_entropy_coef ex_redq_agent"
    and "q_updates_per_policy_update ex_redq_agent \<noteq> 0"
    and "(i_update ex_redq_agent + 1) mod q_updates_per_policy_update ex_redq_agent \<noteq> 0"
    by (simp_all add: ex_redq_agent_def)
  then show ?thesis
    by (rule redq_learned_entropy_call_without_policy_update_raises)
qed

section \<open>Invalid ensemble parameters\<close>

lemma random_choice_too_large:
  assumes "n < k"
  shows "random_choice n k p = Inl ValueError"
  using assms by (simp add: random_choice_def)

lemma redq_update_too_large:
  assumes "redq_n ag1 < redq_m ag1"
  shows "redq_update ext ag1 up alpha lav batch rnd = (ag1, Inl ValueError)"
  using assms
  by (simp add: redq_update_def redq_backup_def random_choice_too_large split: prod.splits)

lemma optimize_entropy_nm:
  fixes ag :: "'s redq_agent"
  assumes "optimize_entropy ext ag la = (ag1, lav)"
  shows "redq_n ag1 = redq_n ag" "redq_m ag1 = redq_m ag" "i_update ag1 = i_update ag"
    "loss_pi ag1 = loss_pi ag" "q_optimizer_list ag1 = q_optimizer_list ag"
    "q_updates_per_policy_update ag1 = q_updates_per_policy_update ag"
  by (subst optimize_entropy_frame[OF assms], simp)+

lemma ex_bad_agent_constructed:
  "redq_post_init (\<lambda>lr. 0) ex_bad_config ex_redq_model = Inr ex_bad_agent"
  by (simp add: redq_post_init_def ex_bad_config_def ex_bad_agent_def init_target_entropy_def
      init_entropy_def ex_redq_model_def)

lemma ex_bad_agent_call:
  "redq_train ex_redq_net ex_bad_agent ex_batch ex_rng
       = (ex_bad_agent\<lparr>i_update := 1\<rparr>, Inl ValueError)"
proof -
  have "redq_n (ex_bad_agent\<lparr>i_update := 1\<rparr>) < redq_m (ex_bad_agent\<lparr>i_update := 1\<rparr>)"
    by (simp add: ex_bad_agent_def)
  then have u: "redq_update ex_redq_net (ex_bad_agent\<lparr>i_update := 1\<rparr>) True 1 None ex_batch ex_rng
      = (ex_bad_agent\<lparr>i_update := 1\<rparr>, Inl ValueError)"
    by (rule redq_update_too_large)
  have e: "entropy ex_bad_agent = Fixed 1" "i_update ex_bad_agent = 0"
    "q_updates_per_policy_update ex_bad_agent = 1" "learn_entropy_coef ex_bad_agent = False"
    by (simp_all add: ex_bad_agent_def)
  show ?thesis
    by (simp add: redq_train_def entropy_coefficient_def e u)
qed

text \<open>
  Claim C7 says that a REDQ agent with \<open>m > n\<close> fails at construction. It does not:
  \<^verbatim>\<open>__post_init__\<close> checks nothing and returns the agent; the first call of
  \<^verbatim>\<open>train\<close> raises ValueError at line 269.
\<close>

theorem redq_construction_accepts_subset_larger_than_ensemble:
  "redq_post_init (\<lambda>lr. 0) ex_bad_config ex_redq_model = Inr ex_bad_agent
   \<and> redq_n ex_bad_agent < redq_m ex_bad_agent
   \<and> redq_train ex_redq_net ex_bad_agent ex_batch ex_rng
       = (ex_bad_agent\<lparr>i_update := 1\<rparr>, Inl ValueError)"
proof -
  have "redq_n ex_bad_agent < redq_m ex_bad_agent" by (simp add: ex_bad_agent_def)
  with ex_bad_agent_constructed ex_bad_agent_call show ?thesis by (intro conjI)
qed

text \<open>
  Claim C7 as amended. Constructing a REDQ agent with \<open>m > n\<close> succeeds and keeps both
  values; no call of \<^verbatim>\<open>train\<close> on an agent with \<open>m > n\<close> returns, and a call that
  reaches the sampling of line 269 (the update ratio is not zero and the entropy
  attributes are those the call reads) raises ValueError there.
\<close>

theorem redq_subset_larger_than_ensemble_fails_in_train:
  fixes ext :: "('o, 'a, 'z, 's, 'y) redq_net_scheme" and adam :: "real \<Rightarrow> 's"
    and batch :: "('o, 'a) batch" and rnd :: "('z, 'w) redq_rng_scheme"
  assumes "cfg_n cfg < cfg_m cfg"
  shows "(\<exists>ag. redq_post_init adam cfg mdl = Inr ag \<and> redq_n ag = cfg_n cfg \<and>
             redq_m ag = cfg_m cfg)
       \<and> (\<forall>ag :: 's redq_agent. redq_n ag = cfg_n cfg \<and> redq_m ag = cfg_m cfg
             \<longrightarrow> isl (snd (redq_train ext ag batch rnd)))
       \<and> (\<forall>ag :: 's redq_agent. redq_n ag = cfg_n cfg \<and> redq_m ag = cfg_m cfg \<and>
             q_updates_per_policy_update ag \<noteq> 0 \<and> entropy_consistent ag \<and>
             (learn_entropy_coef ag \<longrightarrow>
                (i_update ag + 1) mod q_updates_per_policy_update ag = 0)
             \<longrightarrow> snd (redq_train ext ag batch rnd) = Inl ValueError)"
proof (intro conjI allI impI)
  show "\<exists>ag. redq_post_init adam cfg mdl = Inr ag \<and> redq_n ag = cfg_n cfg \<and>
             redq_m ag = cfg_m cfg"
    by (simp add: redq_post_init_def)
next
  fix ag :: "'s redq_agent"
  assume a: "redq_n ag = cfg_n cfg \<and> redq_m ag = cfg_m cfg"
  show "isl (snd (redq_train ext ag batch rnd))"
  proof (cases rule: redq_train_cases[of ag ext batch rnd])
    case zero
    then show ?thesis by simp
  next
    case (attr e)
    then show ?thesis by simp
  next
    case (update alpha la ag1 lav)
    have "redq_n (ag1\<lparr>i_update := i_update ag + 1\<rparr>) < redq_m (ag1\<lparr>i_update := i_update ag + 1\<rparr>)"
      using a assms optimize_entropy_nm(1,2)[OF update(3)] by simp
    then show ?thesis unfolding update(4) by (simp add: redq_update_too_large)
  qed
next
  fix ag :: "'s redq_agent"
  assume a: "redq_n ag = cfg_n cfg \<and> redq_m ag = cfg_m cfg \<and>
             q_updates_per_policy_update ag \<noteq> 0 \<and> entropy_consistent ag \<and>
             (learn_entropy_coef ag \<longrightarrow>
                (i_update ag + 1) mod q_updates_per_policy_update ag = 0)"
  show "snd (redq_train ext ag batch rnd) = Inl ValueError"
  proof (cases rule: redq_train_cases[of ag ext batch rnd])
    case zero
    then show ?thesis using a by simp
  next
    case (attr e)
    then show ?thesis using a
      by (auto simp: entropy_coefficient_def entropy_consistent_def
          split: entropy_coef.splits if_splits)
  next
    case (update alpha la ag1 lav)
    have "redq_n (ag1\<lparr>i_update := i_update ag + 1\<rparr>) < redq_m (ag1\<lparr>i_update := i_update ag + 1\<rparr>)"
      using a assms optimize_entropy_nm(1,2)[OF update(3)] by simp
    then show ?thesis unfolding update(4) by (simp add: redq_update_too_large)
  qed
qed

theorem redq_subset_larger_than_ensemble_fails_in_train_witness:
  "(\<exists>ag. redq_post_init (\<lambda>lr. 0 :: nat) ex_bad_config ex_redq_model = Inr ag \<and>
         redq_n ag = cfg_n ex_bad_config \<and> redq_m ag = cfg_m ex_bad_config)
   \<and> snd (redq_train ex_redq_net ex_bad_agent ex_batch ex_rng) = Inl ValueError"
proof -
  have lt: "cfg_n ex_bad_config < cfg_m ex_bad_config" by (simp add: ex_bad_config_def)
  note th = redq_subset_larger_than_ensemble_fails_in_train
    [where ext = ex_redq_net and batch = ex_batch and rnd = ex_rng and adam = "\<lambda>lr. 0 :: nat"
       and mdl = ex_redq_model, OF lt]
  have h: "redq_n ex_bad_agent = cfg_n ex_bad_config \<and> redq_m ex_bad_agent = cfg_m ex_bad_config \<and>
        q_updates_per_policy_update ex_bad_agent \<noteq> 0 \<and> entropy_consistent ex_bad_agent \<and>
        (learn_entropy_coef ex_bad_agent \<longrightarrow>
           (i_update ex_bad_agent + 1) mod q_updates_per_policy_update ex_bad_agent = 0)"
    by (simp add: ex_bad_agent_def ex_bad_config_def entropy_consistent_def)
  have 1: "\<exists>ag. redq_post_init (\<lambda>lr. 0 :: nat) ex_bad_config ex_redq_model = Inr ag \<and>
         redq_n ag = cfg_n ex_bad_config \<and> redq_m ag = cfg_m ex_bad_config"
    by (rule th[THEN conjunct1])
  have 2: "snd (redq_train ex_redq_net ex_bad_agent ex_batch ex_rng) = Inl ValueError"
    by (rule th[THEN conjunct2, THEN conjunct2, rule_format, OF h])
  from 1 2 show ?thesis by (rule conjI)
qed

section \<open>Determinism\<close>








section \<open>The update-to-data gate\<close>

lemma redq_update_gate:
  fixes ag1 :: "'s redq_agent" and ext :: "('o, 'a, 'z, 's, 'y) redq_net_scheme"
    and batch :: "('o, 'a) batch" and rnd :: "('z, 'w) redq_rng_scheme"
  assumes "redq_update ext ag1 up alpha lav batch rnd = (ag', Inr ret)"
  shows "ret ''loss_actor'' = Some (loss_pi ag')"
    and "i_update ag' = i_update ag1" and "entropy ag' = entropy ag1"
    and "\<not> up \<Longrightarrow> actor (model ag') = actor (model ag1)"
    and "\<not> up \<Longrightarrow> pi_optimizer ag' = pi_optimizer ag1"
    and "\<not> up \<Longrightarrow> loss_pi ag' = loss_pi ag1"
  using assms
  by (auto simp: redq_update_def Let_def ret_entropy_def ret_dict_def
      split: sum.splits prod.splits option.splits if_splits)

text \<open>
  The update-to-data gate on a REDQ call that returns: the counter advances; when the
  call is not due, the actor, its optimizer, the entropy attributes and the stored actor
  loss are as before; the returned \<^verbatim>\<open>loss_actor\<close> is the stored one.
\<close>

lemma redq_returning_call_gates_policy_update:
  fixes ag :: "'s redq_agent" and ext :: "('o, 'a, 'z, 's, 'y) redq_net_scheme"
    and batch :: "('o, 'a) batch" and rnd :: "('z, 'w) redq_rng_scheme"
  assumes "redq_train ext ag batch rnd = (ag', Inr ret)"
  shows "i_update ag' = i_update ag + 1"
    and "ret ''loss_actor'' = Some (loss_pi ag')"
    and "(i_update ag + 1) mod q_updates_per_policy_update ag \<noteq> 0 \<Longrightarrow>
           actor (model ag') = actor (model ag) \<and> pi_optimizer ag' = pi_optimizer ag \<and>
           entropy ag' = entropy ag \<and> loss_pi ag' = loss_pi ag"
proof -
  let ?up = "(i_update ag + 1) mod q_updates_per_policy_update ag = 0"
  obtain alpha la ag1 lav where
    ec: "entropy_coefficient (learn_entropy_coef ag \<and> ?up) ag
          (if ?up then snd (actor_forward ext (actor (model ag)) (fst batch) (eps_pi rnd)) else [])
         = Inr (alpha, la)"
    and oe: "optimize_entropy ext ag la = (ag1, lav)"
    and tr: "redq_train ext ag batch rnd =
         redq_update ext (ag1\<lparr>i_update := i_update ag + 1\<rparr>) ?up alpha lav batch rnd"
    using assms by (cases rule: redq_train_cases[of ag ext batch rnd]) auto
  note u = redq_update_gate[OF tr[unfolded assms, symmetric]]
  note fr = optimize_entropy_frame[OF oe]
  have f: "model ag1 = model ag" "pi_optimizer ag1 = pi_optimizer ag" "loss_pi ag1 = loss_pi ag"
    by (subst fr, simp)+
  show "i_update ag' = i_update ag + 1" using u(2) by simp
  show "ret ''loss_actor'' = Some (loss_pi ag')" by (rule u(1))
  show "actor (model ag') = actor (model ag) \<and> pi_optimizer ag' = pi_optimizer ag \<and>
           entropy ag' = entropy ag \<and> loss_pi ag' = loss_pi ag"
    if n: "(i_update ag + 1) mod q_updates_per_policy_update ag \<noteq> 0"
  proof -
    have "la = None" using ec n
      by (auto simp: entropy_coefficient_def split: entropy_coef.splits)
    then have "ag1 = ag" using oe by simp
    then show ?thesis using u(3) u(4)[OF n] u(5)[OF n] u(6)[OF n] by simp
  qed
qed

text \<open>
  Claim C3 says that critic updates occur on every REDQ call and that a call without a
  policy update returns the actor loss of the most recent policy update. On calls that
  return, the gate works as the claim says (the lemma above). But with a learned entropy
  coefficient, as \<^verbatim>\<open>__post_init__\<close> sets it up, a call that is not due for a policy
  update raises AttributeError at line 259: it advances the counter and does nothing
  else, so no critic is updated and no actor loss is returned.
\<close>

theorem redq_learned_entropy_skipped_call_updates_nothing:
  fixes ag :: "'s redq_agent" and ext :: "('o, 'a, 'z, 's, 'y) redq_net_scheme"
    and batch :: "('o, 'a) batch" and rnd :: "('z, 'w) redq_rng_scheme"
  assumes "learn_entropy_coef ag" and "entropy ag = Learned la s"
    and "q_updates_per_policy_update ag \<noteq> 0"
    and "(i_update ag + 1) mod q_updates_per_policy_update ag \<noteq> 0"
  shows "redq_train ext ag batch rnd = (ag\<lparr>i_update := i_update ag + 1\<rparr>, Inl AttributeError)"
  using assms by (simp add: redq_train_def entropy_coefficient_def)

theorem redq_learned_entropy_skipped_call_updates_nothing_witness:
  "redq_train ex_redq_net ex_redq_agent ex_batch ex_rng =
     (ex_redq_agent\<lparr>i_update := i_update ex_redq_agent + 1\<rparr>, Inl AttributeError)"
proof (rule redq_learned_entropy_skipped_call_updates_nothing)
  show "learn_entropy_coef ex_redq_agent" by (simp add: ex_redq_agent_def)
  show "entropy ex_redq_agent = Learned 0 0" by (simp add: ex_redq_agent_def)
  show "q_updates_per_policy_update ex_redq_agent \<noteq> 0" by (simp add: ex_redq_agent_def)
  show "(i_update ex_redq_agent + 1) mod q_updates_per_policy_update ex_redq_agent \<noteq> 0"
    by (simp add: ex_redq_agent_def)
qed

text \<open>
  Claim C10 says that every call before the first policy update returns the zero actor
  loss of the construction. With a learned entropy coefficient and an update ratio
  above one, the first call of a freshly constructed agent (actor loss \<open>0\<close>, counter
  \<open>0\<close>) raises AttributeError at line 259 and returns nothing.
\<close>

theorem redq_first_call_with_learned_entropy_returns_no_loss:
  fixes ext :: "('o, 'a, 'z, 's, 'y) redq_net_scheme" and adam :: "real \<Rightarrow> 's"
    and batch :: "('o, 'a) batch" and rnd :: "('z, 'w) redq_rng_scheme"
  assumes "cfg_learn_entropy_coef cfg" and "1 < cfg_q_updates_per_policy_update cfg"
  shows "\<exists>ag. redq_post_init adam cfg mdl = Inr ag \<and> i_update ag = 0 \<and> loss_pi ag = 0 \<and>
           redq_train ext ag batch rnd = (ag\<lparr>i_update := 1\<rparr>, Inl AttributeError)"
proof -
  define ag where "ag = projr (redq_post_init adam cfg mdl)"
  have c: "redq_post_init adam cfg mdl = Inr ag" by (simp add: ag_def redq_post_init_def)
  have f: "i_update ag = 0" "loss_pi ag = 0" "learn_entropy_coef ag"
    "entropy ag = Learned (ln (1 * cfg_alpha cfg)) (adam (cfg_lr_entropy cfg))"
    "q_updates_per_policy_update ag = cfg_q_updates_per_policy_update cfg"
    using assms by (simp_all add: ag_def redq_post_init_def init_entropy_def)
  have k: "q_updates_per_policy_update ag \<noteq> 0"
    "(i_update ag + 1) mod q_updates_per_policy_update ag \<noteq> 0"
    using assms(2) by (simp_all add: f)
  have "redq_train ext ag batch rnd = (ag\<lparr>i_update := 1\<rparr>, Inl AttributeError)"
    using f k by (simp add: redq_train_def entropy_coefficient_def)
  with c f(1,2) show ?thesis by blast
qed

theorem redq_first_call_with_learned_entropy_returns_no_loss_witness:
  "\<exists>ag. redq_post_init (\<lambda>lr. 0 :: nat) ex_redq_config ex_redq_model = Inr ag \<and> i_update ag = 0 \<and>
        loss_pi ag = 0 \<and>
        redq_train ex_redq_net ag ex_batch ex_rng = (ag\<lparr>i_update := 1\<rparr>, Inl AttributeError)"
proof (rule redq_first_call_with_learned_entropy_returns_no_loss)
  show "cfg_learn_entropy_coef ex_redq_config" by (simp add: ex_redq_config_def)
  show "1 < cfg_q_updates_per_policy_update ex_redq_config" by (simp add: ex_redq_config_def)
qed

section \<open>The REDQ step on a well-shaped batch\<close>

lemma redq_min_q_ok:
  fixes ext :: "('o, 'a, 'z, 's, 'y) redq_net_scheme"
  assumes "\<forall>j p x. length (qs_forward ext j p o2 x) = B"
    and "1 \<le> k" "k \<le> n" "nat n \<le> length (qs targ)"
    and "distinct p" "set p = {0..<nat n}"
  shows "\<exists>v. redq_min_q ext targ o2 a2 (take (nat k) p) = Inr v \<and> length v = B"
proof -
  define idxs where "idxs = take (nat k) p"
  define cols where "cols = map (\<lambda>i. qs_forward ext i (qs targ ! i) o2 a2) idxs"
  have lp: "length p = nat n" using assms(5,6) by (metis distinct_card card_atLeastLessThan diff_zero)
  have li: "length idxs = nat k" unfolding idxs_def using lp assms(2,3) by simp
  have si: "set idxs \<subseteq> {0..<nat n}"
    unfolding idxs_def using assms(6) set_take_subset[of "nat k" p] by simp
  have inb: "\<forall>i\<in>set idxs. i < length (qs targ)" using si assms(4) by auto
  have ne: "cols \<noteq> []" unfolding cols_def using li assms(2) by auto
  have lc: "\<forall>c\<in>set cols. length c = B" unfolding cols_def using assms(1) by auto
  have mq: "redq_min_q ext targ o2 a2 idxs = Inr (min_dim1 cols)"
    unfolding redq_min_q_def
    by (simp add: q_prediction_next_list_ok[OF inb] stack_ok[OF ne lc] cols_def[symmetric])
  obtain c cs where cc: "cols = c # cs" using ne by (cases cols) auto
  have "length (min_dim1 cols) = B"
    using lc unfolding cc by (simp add: min_dim1_def foldl_min_length)
  with mq show ?thesis unfolding idxs_def by blast
qed

lemma redq_backup_ok:
  fixes ext :: "('o, 'a, 'z, 's, 'y) redq_net_scheme"
  assumes "length r = B" "length d = B"
    and "length (snd (actor_forward ext (actor live) o2 z2)) = B"
    and "\<forall>j p x. length (qs_forward ext j p o2 x) = B"
    and "1 \<le> k" "k \<le> n" "nat n \<le> length (qs targ)"
    and "distinct p" "set p = {0..<nat n}"
  shows "\<exists>bk. redq_backup ext gam live targ n k alpha r o2 d z2 p = Inr bk \<and> length bk = B"
proof -
  obtain a2 logp where al: "actor_forward ext (actor live) o2 z2 = (a2, logp)"
    by (cases "actor_forward ext (actor live) o2 z2")
  have l: "length logp = B" using assms(3) al by simp
  obtain v where v: "redq_min_q ext targ o2 a2 (take (nat k) p) = Inr v" "length v = B"
    using redq_min_q_ok[OF assms(4-9)] by blast
  have rc: "random_choice n k p = Inr (take (nat k) p)"
    using assms(5,6) by (intro random_choice_ok) simp_all
  show ?thesis
    unfolding redq_backup_def al
    by (simp add: rc v broadcast_same l assms(1,2))
qed

lemma diff_columns_ok:
  assumes "\<forall>(x, y)\<in>set ps. length x = length y"
  shows "\<exists>es. diff_columns ps = Inr es"
  using assms
proof (induction ps)
  case Nil
  then show ?case by simp
next
  case (Cons xy ps)
  obtain x y where xy: "xy = (x, y)" by (cases xy)
  from Cons obtain es where "diff_columns ps = Inr es" by auto
  moreover have "length x = length y" using Cons.prems xy by simp
  ultimately show ?case by (simp add: xy broadcast_same)
qed

lemma q_prediction_list_shape:
  fixes ext :: "('o, 'a, 'z, 's, 'y) redq_net_scheme"
  assumes "\<forall>j p x. length (qs_forward ext j p ob x) = B"
  shows "\<forall>c\<in>set (q_prediction_list ext ps ob a). length c = B"
    and "length (q_prediction_list ext ps ob a) = length ps"
  using assms by (auto simp: q_prediction_list_def)

lemma redq_loss_q_ok:
  fixes ext :: "('o, 'a, 'z, 's, 'y) redq_net_scheme"
  assumes "length bk = B" and "\<forall>j p x. length (qs_forward ext j p ob x) = B"
    and "length ps = nat n" and "1 \<le> n"
  shows "\<exists>v. redq_loss_q ext ob a n bk ps = Inr v"
proof -
  let ?cols = "q_prediction_list ext ps ob a"
  have lc: "\<forall>c\<in>set ?cols. length c = B" and ll: "length ?cols = length ps"
    using q_prediction_list_shape[OF assms(2)] by auto
  have ne: "?cols \<noteq> []" using ll assms(3,4) by auto
  have st: "stack ?cols = Inr ?cols" by (rule stack_ok[OF ne lc])
  have pc: "pair_columns ?cols (replicate (nat n) bk) = Inr (zip ?cols (replicate (nat n) bk))"
    using ll assms(3) by (simp add: pair_columns_def)
  have "\<forall>(x, y)\<in>set (zip ?cols (replicate (nat n) bk)). length x = length y"
  proof (clarify)
    fix x y assume xy: "(x, y) \<in> set (zip ?cols (replicate (nat n) bk))"
    have "x \<in> set ?cols" using xy by (rule set_zip_leftD)
    moreover have "y \<in> set (replicate (nat n) bk)" using xy by (rule set_zip_rightD)
    ultimately show "length x = length y" using lc assms(1) by auto
  qed
  then obtain es where "diff_columns (zip ?cols (replicate (nat n) bk)) = Inr es"
    using diff_columns_ok by blast
  then show ?thesis by (simp add: redq_loss_q_def st criterion_def pc)
qed

lemma foldl_add_length:
  assumes "length c = B" and "\<forall>x\<in>set cs. length x = B"
  shows "length (foldl (map2 (+)) (c :: real list) cs) = B"
  using assms by (induction cs arbitrary: c) simp_all

lemma redq_loss_pi_ok:
  fixes ext :: "('o, 'a, 'z, 's, 'y) redq_net_scheme"
  assumes "length (snd (actor_forward ext \<theta> ob z)) = B"
    and "\<forall>j p x. length (qs_forward ext j p ob x) = B" and "ps \<noteq> []"
  shows "\<exists>v. redq_loss_pi ext ps alpha ob z \<theta> = Inr v"
proof -
  obtain a_pi logp where al: "actor_forward ext \<theta> ob z = (a_pi, logp)"
    by (cases "actor_forward ext \<theta> ob z")
  have l: "length logp = B" using assms(1) al by simp
  let ?cols = "q_prediction_list ext ps ob a_pi"
  have lc: "\<forall>c\<in>set ?cols. length c = B" and ll: "length ?cols = length ps"
    using q_prediction_list_shape[OF assms(2)] by auto
  have ne: "?cols \<noteq> []" using ll assms(3) by auto
  have st: "stack ?cols = Inr ?cols" by (rule stack_ok[OF ne lc])
  obtain c cs where cc: "?cols = c # cs" using ne by (cases ?cols) auto
  have "length (mean_dim1 ?cols) = B"
    using lc unfolding cc by (simp add: mean_dim1_def foldl_add_length)
  then show ?thesis
    unfolding redq_loss_pi_def al by (simp add: st broadcast_same l)
qed

lemma redq_update_entropy [simp]:
  "entropy (fst (redq_update ext ag1 up alpha lav batch rnd)) = entropy ag1"
  by (simp add: redq_update_def Let_def split: sum.splits prod.splits option.splits)

lemma redq_update_success:
  fixes ext :: "('o, 'a, 'z, 's, 'y) redq_net_scheme" and ag1 :: "'s redq_agent"
    and rnd :: "('z, 'w) redq_rng_scheme"
  assumes rd: "redq_ready ext B ag1 (ob, a, r, o2, d) rnd"
  shows "\<exists>bk lqv lp.
      redq_backup ext (gamma ag1) (model ag1) (model_target ag1) (redq_n ag1) (redq_m ag1)
        alpha r o2 d (eps_a2 rnd) (perm rnd) = Inr bk
    \<and> redq_loss_q ext ob a (redq_n ag1) bk (qs (model ag1)) = Inr lqv
    \<and> redq_loss_pi ext (qs (model ag1)) alpha ob (eps_pi rnd) (actor (model ag1)) = Inr lp
    \<and> snd (redq_update ext ag1 up alpha lav (ob, a, r, o2, d) rnd) =
        ret_entropy (learn_entropy_coef ag1) lav alpha
          (ret_dict (if up then lp else loss_pi ag1) lqv)"
proof -
  from rd have sh:
    "length r = B" "length d = B"
    "\<forall>\<theta>. length (snd (actor_forward ext \<theta> ob (eps_pi rnd))) = B"
    "\<forall>\<theta>. length (snd (actor_forward ext \<theta> o2 (eps_a2 rnd))) = B"
    "\<forall>j p x. length (qs_forward ext j p ob x) = B"
    "\<forall>j p x. length (qs_forward ext j p o2 x) = B"
    and nm: "1 \<le> redq_m ag1" "redq_m ag1 \<le> redq_n ag1"
      "length (qs (model ag1)) = nat (redq_n ag1)"
      "nat (redq_n ag1) \<le> length (qs (model_target ag1))"
    and pm: "distinct (perm rnd)" "set (perm rnd) = {0..<nat (redq_n ag1)}"
    by (simp_all add: redq_ready_def redq_shapes_def)
  obtain bk where bk: "redq_backup ext (gamma ag1) (model ag1) (model_target ag1) (redq_n ag1)
      (redq_m ag1) alpha r o2 d (eps_a2 rnd) (perm rnd) = Inr bk" and lb: "length bk = B"
    using redq_backup_ok[OF sh(1,2) sh(4)[rule_format] sh(6) nm(1,2,4) pm] by blast
  have n1: "1 \<le> redq_n ag1" using nm(1,2) by simp
  obtain lqv where lq: "redq_loss_q ext ob a (redq_n ag1) bk (qs (model ag1)) = Inr lqv"
    using redq_loss_q_ok[OF lb sh(5) nm(3) n1] by blast
  have ne: "qs (model ag1) \<noteq> []" using nm(3) n1 by auto
  obtain lp where lp: "redq_loss_pi ext (qs (model ag1)) alpha ob (eps_pi rnd)
      (actor (model ag1)) = Inr lp"
    using redq_loss_pi_ok[OF sh(3)[rule_format] sh(5) ne] by blast
  have "snd (redq_update ext ag1 up alpha lav (ob, a, r, o2, d) rnd) =
        ret_entropy (learn_entropy_coef ag1) lav alpha
          (ret_dict (if up then lp else loss_pi ag1) lqv)"
    by (cases up) (simp_all add: redq_update_def bk lq lp Let_def split: prod.splits)
  with bk lq lp show ?thesis by blast
qed

lemma redq_ready_after_entropy_step:
  "redq_ready ext B ((fst (optimize_entropy ext' ag la))\<lparr>i_update := x\<rparr>) batch rnd =
     redq_ready ext B ag batch rnd"
  by (auto simp: optimize_entropy_def redq_ready_def split: option.splits entropy_coef.splits prod.splits)

lemma redq_fields_after_entropy_step:
  "redq_n (fst (optimize_entropy ext ag la)) = redq_n ag"
  "redq_m (fst (optimize_entropy ext ag la)) = redq_m ag"
  "loss_pi (fst (optimize_entropy ext ag la)) = loss_pi ag"
  by (auto simp: optimize_entropy_def split: option.splits entropy_coef.splits prod.splits)

lemma sac_learned_step:
  fixes ext :: "('o, 'a, 'z, 's, 'y) sac_net_scheme" and ag :: "'s sac_agent"
    and rnd :: "('z, 'w) rng_scheme"
  assumes sh: "sac_shapes ext B (ob, a, r, o2, d) rnd"
    and le: "learn_entropy_coef ag" and en: "entropy ag = Learned la s"
  defines "S \<equiv> sac_train ext ag (ob, a, r, o2, d) rnd"
    and "L \<equiv> loss_alpha_fn (target_entropy ag)
                (snd (actor_forward ext (actor (model ag)) ob (eps_pi rnd)))"
  shows "entropy (fst S) = Learned (snd (alpha_step ext s L la)) (fst (alpha_step ext s L la))
     \<and> (\<exists>bk lq lp.
          sac_backup ext (gamma ag) (model ag) (model_target ag) (exp la) r o2 d (eps_a2 rnd) = Inr bk
        \<and> sac_loss_q ext ob a bk (q1 (model ag), q2 (model ag)) = Inr lq
        \<and> sac_loss_pi ext (q1 (model (fst S))) (q2 (model (fst S))) (exp la) ob (eps_pi rnd)
            (actor (model ag)) = Inr lp
        \<and> snd S = Inr [''loss_actor'' \<mapsto> lp, ''loss_critic'' \<mapsto> lq,
                       ''loss_entropy_coef'' \<mapsto> L la, ''entropy_coef'' \<mapsto> exp la])"
proof -
  have ec: "entropy_consistent ag" using le en by (simp add: entropy_consistent_def)
  have al: "alpha_t_of ag = exp la" using en by (simp add: alpha_t_of_def)
  obtain ag1 lav backup lqv sq p1 p2 lpv sp th where
    oe: "optimize_entropy ext ag
       (if learn_entropy_coef ag
        then Some (loss_alpha_fn (target_entropy ag)
                     (snd (actor_forward ext (actor (model ag)) ob (eps_pi rnd))))
        else None) = (ag1, lav)"
    and bk: "sac_backup ext (gamma ag) (model ag) (model_target ag) (alpha_t_of ag) r o2 d (eps_a2 rnd)
       = Inr backup"
    and "length backup = B"
    and lq: "sac_loss_q ext ob a backup (q1 (model ag), q2 (model ag)) = Inr lqv"
    and "q_step ext (q_optimizer ag) (sac_loss_q ext ob a backup) (q1 (model ag), q2 (model ag))
       = (sq, p1, p2)"
    and lp: "sac_loss_pi ext p1 p2 (alpha_t_of ag) ob (eps_pi rnd) (actor (model ag)) = Inr lpv"
    and "pi_step ext (pi_optimizer ag) (sac_loss_pi ext p1 p2 (alpha_t_of ag) ob (eps_pi rnd))
       (actor (model ag)) = (sp, th)"
    and tr: "sac_train ext ag (ob, a, r, o2, d) rnd =
       (ag1\<lparr>q_optimizer := sq,
            model := (model ag)\<lparr>q1 := p1, q2 := p2, actor := th\<rparr>,
            pi_optimizer := sp,
            model_target := sac_polyak (polyak ag) ((model ag)\<lparr>q1 := p1, q2 := p2, actor := th\<rparr>)
                              (model_target ag)\<rparr>,
        ret_entropy (learn_entropy_coef ag) lav (alpha_t_of ag) (ret_dict lpv lqv))"
    by (rule sac_train_success[OF sh ec])
  from oe le have oe': "optimize_entropy ext ag (Some L) = (ag1, lav)"
    by (simp add: L_def)
  have a1: "ag1 = ag\<lparr>entropy := Learned (snd (alpha_step ext s L la)) (fst (alpha_step ext s L la))\<rparr>"
    and lv: "lav = Some (L la)"
    using oe' optimize_entropy_learned[OF en, of ext L] by simp_all
  have e: "entropy (fst S) = Learned (snd (alpha_step ext s L la)) (fst (alpha_step ext s L la))"
    unfolding S_def tr by (simp add: a1)
  have q: "q1 (model (fst S)) = p1" "q2 (model (fst S)) = p2"
    unfolding S_def tr by simp_all
  have r: "snd S = Inr [''loss_actor'' \<mapsto> lpv, ''loss_critic'' \<mapsto> lqv,
                       ''loss_entropy_coef'' \<mapsto> L la, ''entropy_coef'' \<mapsto> exp la]"
    unfolding S_def tr by (simp add: le lv al ret_entropy_def ret_dict_def)
  have "sac_backup ext (gamma ag) (model ag) (model_target ag) (exp la) r o2 d (eps_a2 rnd) = Inr backup
        \<and> sac_loss_q ext ob a backup (q1 (model ag), q2 (model ag)) = Inr lqv
        \<and> sac_loss_pi ext (q1 (model (fst S))) (q2 (model (fst S))) (exp la) ob (eps_pi rnd)
            (actor (model ag)) = Inr lpv
        \<and> snd S = Inr [''loss_actor'' \<mapsto> lpv, ''loss_critic'' \<mapsto> lqv,
                       ''loss_entropy_coef'' \<mapsto> L la, ''entropy_coef'' \<mapsto> exp la]"
    using bk lq lp r unfolding al q by (intro conjI)
  then have "\<exists>bk lq lp.
          sac_backup ext (gamma ag) (model ag) (model_target ag) (exp la) r o2 d (eps_a2 rnd) = Inr bk
        \<and> sac_loss_q ext ob a bk (q1 (model ag), q2 (model ag)) = Inr lq
        \<and> sac_loss_pi ext (q1 (model (fst S))) (q2 (model (fst S))) (exp la) ob (eps_pi rnd)
            (actor (model ag)) = Inr lp
        \<and> snd S = Inr [''loss_actor'' \<mapsto> lp, ''loss_critic'' \<mapsto> lq,
                       ''loss_entropy_coef'' \<mapsto> L la, ''entropy_coef'' \<mapsto> exp la]"
    by (intro exI)
  with e show ?thesis by (rule conjI)
qed

lemma sac_fixed_step:
  fixes ext :: "('o, 'a, 'z, 's, 'y) sac_net_scheme" and ag :: "'s sac_agent"
    and rnd :: "('z, 'w) rng_scheme"
  assumes sh: "sac_shapes ext B (ob, a, r, o2, d) rnd"
    and le: "\<not> learn_entropy_coef ag" and en: "entropy ag = Fixed c"
  defines "S \<equiv> sac_train ext ag (ob, a, r, o2, d) rnd"
  shows "entropy (fst S) = Fixed c
     \<and> (\<exists>bk lq lp.
          sac_backup ext (gamma ag) (model ag) (model_target ag) c r o2 d (eps_a2 rnd) = Inr bk
        \<and> sac_loss_q ext ob a bk (q1 (model ag), q2 (model ag)) = Inr lq
        \<and> sac_loss_pi ext (q1 (model (fst S))) (q2 (model (fst S))) c ob (eps_pi rnd)
            (actor (model ag)) = Inr lp
        \<and> snd S = Inr [''loss_actor'' \<mapsto> lp, ''loss_critic'' \<mapsto> lq])"
proof -
  have ec: "entropy_consistent ag" using le en by (simp add: entropy_consistent_def)
  have al: "alpha_t_of ag = c" using en by (simp add: alpha_t_of_def)
  obtain ag1 lav backup lqv sq p1 p2 lpv sp th where
    oe: "optimize_entropy ext ag
       (if learn_entropy_coef ag
        then Some (loss_alpha_fn (target_entropy ag)
                     (snd (actor_forward ext (actor (model ag)) ob (eps_pi rnd))))
        else None) = (ag1, lav)"
    and bk: "sac_backup ext (gamma ag) (model ag) (model_target ag) (alpha_t_of ag) r o2 d (eps_a2 rnd)
       = Inr backup"
    and "length backup = B"
    and lq: "sac_loss_q ext ob a backup (q1 (model ag), q2 (model ag)) = Inr lqv"
    and "q_step ext (q_optimizer ag) (sac_loss_q ext ob a backup) (q1 (model ag), q2 (model ag))
       = (sq, p1, p2)"
    and lp: "sac_loss_pi ext p1 p2 (alpha_t_of ag) ob (eps_pi rnd) (actor (model ag)) = Inr lpv"
    and "pi_step ext (pi_optimizer ag) (sac_loss_pi ext p1 p2 (alpha_t_of ag) ob (eps_pi rnd))
       (actor (model ag)) = (sp, th)"
    and tr: "sac_train ext ag (ob, a, r, o2, d) rnd =
       (ag1\<lparr>q_optimizer := sq,
            model := (model ag)\<lparr>q1 := p1, q2 := p2, actor := th\<rparr>,
            pi_optimizer := sp,
            model_target := sac_polyak (polyak ag) ((model ag)\<lparr>q1 := p1, q2 := p2, actor := th\<rparr>)
                              (model_target ag)\<rparr>,
        ret_entropy (learn_entropy_coef ag) lav (alpha_t_of ag) (ret_dict lpv lqv))"
    by (rule sac_train_success[OF sh ec])
  from oe le have a1: "ag1 = ag" by simp
  have e: "entropy (fst S) = Fixed c"
    unfolding S_def tr by (simp add: a1 en)
  have q: "q1 (model (fst S)) = p1" "q2 (model (fst S)) = p2"
    unfolding S_def tr by simp_all
  have r: "snd S = Inr [''loss_actor'' \<mapsto> lpv, ''loss_critic'' \<mapsto> lqv]"
    unfolding S_def tr by (simp add: le ret_entropy_def ret_dict_def)
  have "sac_backup ext (gamma ag) (model ag) (model_target ag) c r o2 d (eps_a2 rnd) = Inr backup
        \<and> sac_loss_q ext ob a backup (q1 (model ag), q2 (model ag)) = Inr lqv
        \<and> sac_loss_pi ext (q1 (model (fst S))) (q2 (model (fst S))) c ob (eps_pi rnd)
            (actor (model ag)) = Inr lpv
        \<and> snd S = Inr [''loss_actor'' \<mapsto> lpv, ''loss_critic'' \<mapsto> lqv]"
    using bk lq lp r unfolding al q by (intro conjI)
  then have "\<exists>bk lq lp.
          sac_backup ext (gamma ag) (model ag) (model_target ag) c r o2 d (eps_a2 rnd) = Inr bk
        \<and> sac_loss_q ext ob a bk (q1 (model ag), q2 (model ag)) = Inr lq
        \<and> sac_loss_pi ext (q1 (model (fst S))) (q2 (model (fst S))) c ob (eps_pi rnd)
            (actor (model ag)) = Inr lp
        \<and> snd S = Inr [''loss_actor'' \<mapsto> lp, ''loss_critic'' \<mapsto> lq]"
    by (intro exI)
  with e show ?thesis by (rule conjI)
qed

lemma redq_skipped_call_keeps_entropy:
  fixes ext :: "('o, 'a, 'z, 's, 'y) redq_net_scheme" and ag :: "'s redq_agent"
    and rnd :: "('z, 'w) redq_rng_scheme" and batch :: "('o, 'a) batch"
  assumes nd: "(i_update ag + 1) mod q_updates_per_policy_update ag \<noteq> 0"
  shows "entropy (fst (redq_train ext ag batch rnd)) = entropy ag"
proof (cases rule: redq_train_cases[of ag ext batch rnd])
  case zero
  then show ?thesis by simp
next
  case (attr e)
  then show ?thesis by simp
next
  case (update alpha la ag1 lav)
  from update(2) nd have "la = None"
    by (auto simp: entropy_coefficient_def split: entropy_coef.splits)
  with update(3) have "ag1 = ag" by simp
  then show ?thesis unfolding update(4) by simp
qed

lemma redq_learned_step:
  fixes ext :: "('o, 'a, 'z, 's, 'y) redq_net_scheme" and ag :: "'s redq_agent"
    and rnd :: "('z, 'w) redq_rng_scheme"
  assumes rd: "redq_ready ext B ag (ob, a, r, o2, d) rnd"
    and le: "learn_entropy_coef ag" and en: "entropy ag = Learned la s"
    and k: "q_updates_per_policy_update ag \<noteq> 0"
    and due: "(i_update ag + 1) mod q_updates_per_policy_update ag = 0"
  defines "R \<equiv> redq_train ext ag (ob, a, r, o2, d) rnd"
    and "L \<equiv> loss_alpha_fn (target_entropy ag)
                (snd (actor_forward ext (actor (model ag)) ob (eps_pi rnd)))"
  shows "entropy (fst R) = Learned (snd (alpha_step ext s L la)) (fst (alpha_step ext s L la))
     \<and> (\<exists>bk lq lp.
          redq_backup ext (gamma ag) (model ag) (model_target ag) (redq_n ag) (redq_m ag)
            (exp la) r o2 d (eps_a2 rnd) (perm rnd) = Inr bk
        \<and> redq_loss_q ext ob a (redq_n ag) bk (qs (model ag)) = Inr lq
        \<and> redq_loss_pi ext (qs (model ag)) (exp la) ob (eps_pi rnd) (actor (model ag)) = Inr lp
        \<and> snd R = Inr [''loss_actor'' \<mapsto> lp, ''loss_critic'' \<mapsto> lq,
                       ''loss_entropy_coef'' \<mapsto> L la, ''entropy_coef'' \<mapsto> exp la])"
proof (cases rule: redq_train_cases[of ag ext "(ob, a, r, o2, d)" rnd])
  case zero
  with k show ?thesis by simp
next
  case (attr e)
  from attr(2) le en due show ?thesis by (simp add: entropy_coefficient_def)
next
  case (update alpha lf ag1 lav)
  from update(2) le en due have al: "alpha = exp la" and lf: "lf = Some L"
    by (simp_all add: entropy_coefficient_def L_def)
  have a1: "ag1 = ag\<lparr>entropy := Learned (snd (alpha_step ext s L la)) (fst (alpha_step ext s L la))\<rparr>"
    and lv: "lav = Some (L la)"
    using update(3) optimize_entropy_learned[OF en, of ext L] unfolding lf by simp_all
  define ag2 where "ag2 = ag1\<lparr>i_update := i_update ag + 1\<rparr>"
  have rd2: "redq_ready ext B ag2 (ob, a, r, o2, d) rnd"
    using rd unfolding ag2_def a1 by (simp add: redq_ready_def)
  have f: "gamma ag2 = gamma ag" "model ag2 = model ag" "model_target ag2 = model_target ag"
    "redq_n ag2 = redq_n ag" "redq_m ag2 = redq_m ag" "learn_entropy_coef ag2 = learn_entropy_coef ag"
    "entropy ag2 = Learned (snd (alpha_step ext s L la)) (fst (alpha_step ext s L la))"
    unfolding ag2_def a1 by simp_all
  have Rq: "R = redq_update ext ag2 True (exp la) (Some (L la)) (ob, a, r, o2, d) rnd"
    unfolding R_def update(4) ag2_def using due by (simp add: al lv)
  have e: "entropy (fst R) = Learned (snd (alpha_step ext s L la)) (fst (alpha_step ext s L la))"
    unfolding Rq by (simp add: f)
  from redq_update_success[OF rd2, of "exp la" True "Some (L la)"]
  obtain bk lqv lp where
    s1: "redq_backup ext (gamma ag2) (model ag2) (model_target ag2) (redq_n ag2) (redq_m ag2)
        (exp la) r o2 d (eps_a2 rnd) (perm rnd) = Inr bk"
    and s2: "redq_loss_q ext ob a (redq_n ag2) bk (qs (model ag2)) = Inr lqv"
    and s3: "redq_loss_pi ext (qs (model ag2)) (exp la) ob (eps_pi rnd) (actor (model ag2)) = Inr lp"
    and s4: "snd (redq_update ext ag2 True (exp la) (Some (L la)) (ob, a, r, o2, d) rnd) =
        ret_entropy (learn_entropy_coef ag2) (Some (L la)) (exp la)
          (ret_dict (if True then lp else loss_pi ag2) lqv)"
    by blast
  have r: "snd R = Inr [''loss_actor'' \<mapsto> lp, ''loss_critic'' \<mapsto> lqv,
                       ''loss_entropy_coef'' \<mapsto> L la, ''entropy_coef'' \<mapsto> exp la]"
    unfolding Rq s4 by (simp add: f le ret_entropy_def ret_dict_def)
  have "redq_backup ext (gamma ag) (model ag) (model_target ag) (redq_n ag) (redq_m ag)
            (exp la) r o2 d (eps_a2 rnd) (perm rnd) = Inr bk
        \<and> redq_loss_q ext ob a (redq_n ag) bk (qs (model ag)) = Inr lqv
        \<and> redq_loss_pi ext (qs (model ag)) (exp la) ob (eps_pi rnd) (actor (model ag)) = Inr lp
        \<and> snd R = Inr [''loss_actor'' \<mapsto> lp, ''loss_critic'' \<mapsto> lqv,
                       ''loss_entropy_coef'' \<mapsto> L la, ''entropy_coef'' \<mapsto> exp la]"
    using s1 s2 s3 r unfolding f by (intro conjI)
  then have "\<exists>bk lq lp.
          redq_backup ext (gamma ag) (model ag) (model_target ag) (redq_n ag) (redq_m ag)
            (exp la) r o2 d (eps_a2 rnd) (perm rnd) = Inr bk
        \<and> redq_loss_q ext ob a (redq_n ag) bk (qs (model ag)) = Inr lq
        \<and> redq_loss_pi ext (qs (model ag)) (exp la) ob (eps_pi rnd) (actor (model ag)) = Inr lp
        \<and> snd R = Inr [''loss_actor'' \<mapsto> lp, ''loss_critic'' \<mapsto> lq,
                       ''loss_entropy_coef'' \<mapsto> L la, ''entropy_coef'' \<mapsto> exp la]"
    by (intro exI)
  with e show ?thesis by (rule conjI)
qed

lemma redq_fixed_step:
  fixes ext :: "('o, 'a, 'z, 's, 'y) redq_net_scheme" and ag :: "'s redq_agent"
    and rnd :: "('z, 'w) redq_rng_scheme"
  assumes rd: "redq_ready ext B ag (ob, a, r, o2, d) rnd"
    and le: "\<not> learn_entropy_coef ag" and en: "entropy ag = Fixed c"
    and k: "q_updates_per_policy_update ag \<noteq> 0"
  defines "R \<equiv> redq_train ext ag (ob, a, r, o2, d) rnd"
  shows "entropy (fst R) = Fixed c
     \<and> (\<exists>bk lq la.
          redq_backup ext (gamma ag) (model ag) (model_target ag) (redq_n ag) (redq_m ag)
            c r o2 d (eps_a2 rnd) (perm rnd) = Inr bk
        \<and> redq_loss_q ext ob a (redq_n ag) bk (qs (model ag)) = Inr lq
        \<and> snd R = Inr [''loss_actor'' \<mapsto> la, ''loss_critic'' \<mapsto> lq])"
proof (cases rule: redq_train_cases[of ag ext "(ob, a, r, o2, d)" rnd])
  case zero
  with k show ?thesis by simp
next
  case (attr e)
  from attr(2) le en show ?thesis by (simp add: entropy_coefficient_def)
next
  case (update alpha lf ag1 lav)
  from update(2) le en have al: "alpha = c" and lf: "lf = None"
    by (simp_all add: entropy_coefficient_def)
  have a1: "ag1 = ag" and lv: "lav = None"
    using update(3) unfolding lf by simp_all
  define ag2 where "ag2 = ag\<lparr>i_update := i_update ag + 1\<rparr>"
  define up where "up = ((i_update ag + 1) mod q_updates_per_policy_update ag = 0)"
  have rd2: "redq_ready ext B ag2 (ob, a, r, o2, d) rnd"
    using rd unfolding ag2_def by (simp add: redq_ready_def)
  have f: "gamma ag2 = gamma ag" "model ag2 = model ag" "model_target ag2 = model_target ag"
    "redq_n ag2 = redq_n ag" "redq_m ag2 = redq_m ag" "learn_entropy_coef ag2 = learn_entropy_coef ag"
    "entropy ag2 = Fixed c"
    unfolding ag2_def by (simp_all add: en)
  have Rq: "R = redq_update ext ag2 up c None (ob, a, r, o2, d) rnd"
    unfolding R_def update(4) ag2_def up_def by (simp add: al lv a1)
  have e: "entropy (fst R) = Fixed c"
    unfolding Rq by (simp add: f)
  from redq_update_success[OF rd2, of c up None]
  obtain bk lqv lp where
    s1: "redq_backup ext (gamma ag2) (model ag2) (model_target ag2) (redq_n ag2) (redq_m ag2)
        c r o2 d (eps_a2 rnd) (perm rnd) = Inr bk"
    and s2: "redq_loss_q ext ob a (redq_n ag2) bk (qs (model ag2)) = Inr lqv"
    and s4: "snd (redq_update ext ag2 up c None (ob, a, r, o2, d) rnd) =
        ret_entropy (learn_entropy_coef ag2) None c
          (ret_dict (if up then lp else loss_pi ag2) lqv)"
    by blast
  have r: "snd R = Inr [''loss_actor'' \<mapsto> (if up then lp else loss_pi ag2), ''loss_critic'' \<mapsto> lqv]"
    unfolding Rq s4 by (simp add: f le ret_entropy_def ret_dict_def)
  have "redq_backup ext (gamma ag) (model ag) (model_target ag) (redq_n ag) (redq_m ag)
            c r o2 d (eps_a2 rnd) (perm rnd) = Inr bk
        \<and> redq_loss_q ext ob a (redq_n ag) bk (qs (model ag)) = Inr lqv
        \<and> snd R = Inr [''loss_actor'' \<mapsto> (if up then lp else loss_pi ag2), ''loss_critic'' \<mapsto> lqv]"
    using s1 s2 r unfolding f by (intro conjI)
  then have "\<exists>bk lq la.
          redq_backup ext (gamma ag) (model ag) (model_target ag) (redq_n ag) (redq_m ag)
            c r o2 d (eps_a2 rnd) (perm rnd) = Inr bk
        \<and> redq_loss_q ext ob a (redq_n ag) bk (qs (model ag)) = Inr lq
        \<and> snd R = Inr [''loss_actor'' \<mapsto> la, ''loss_critic'' \<mapsto> lq]"
    by (intro exI)
  with e show ?thesis by (rule conjI)
qed

lemma ex_redq_due_ready:
  "redq_ready ex_redq_net 2 ex_redq_due ([1, 2], [0, 1], [1, 0], [2, 3], [0, 1]) ex_rng"
  using ex_redq_shapes
  by (auto simp: redq_ready_def ex_redq_due_def ex_redq_agent_def ex_redq_model_def ex_rng_def)

lemma ex_redq_fixed_ready:
  "redq_ready ex_redq_net 2 ex_redq_fixed ([1, 2], [0, 1], [1, 0], [2, 3], [0, 1]) ex_rng"
  using ex_redq_shapes
  by (auto simp: redq_ready_def ex_redq_fixed_def ex_redq_model_def ex_redq_target_def ex_rng_def)

section \<open>The entropy coefficient step\<close>

text \<open>
  Claim C5 says that, when the entropy coefficient is learned, each training step
  computes \<open>alpha_t = exp log_alpha\<close> and the coefficient loss and applies the
  coefficient's optimizer step. The REDQ step does so only under
  \<^verbatim>\<open>self.learn_entropy_coef and update_policy\<close> (line 255): on the first call of an agent
  with one policy update per two calls, the coefficient, its optimizer and everything
  else but the call counter are left as they were, and no \<^verbatim>\<open>alpha_t\<close> is computed.
\<close>

theorem redq_call_without_policy_update_takes_no_entropy_step:
  "learn_entropy_coef ex_redq_agent
   \<and> entropy ex_redq_agent = Learned 0 0
   \<and> redq_train ex_redq_net ex_redq_agent ex_batch ex_rng =
       (ex_redq_agent\<lparr>i_update := 1\<rparr>, Inl AttributeError)"
  by (simp add: redq_train_def entropy_coefficient_def ex_redq_agent_def)

text \<open>
  Claim C5 as amended. With a learned coefficient, a SAC call on a well-shaped batch,
  and a REDQ call on a well-shaped batch on which the policy is updated, leave
  \<^verbatim>\<open>log_alpha\<close> and its optimizer as one step of that optimizer on
  \<open>- mean (log_alpha * (logp_pi + target_entropy))\<close> makes them (nothing else of the call
  moves them), while the backup, the actor loss and the returned \<^verbatim>\<open>entropy_coef\<close> use
  \<open>exp\<close> of the value that \<^verbatim>\<open>log_alpha\<close> had before that step; the returned
  \<^verbatim>\<open>loss_entropy_coef\<close> is the loss at that value. A REDQ call on which the policy is not
  updated leaves the coefficient and its optimizer untouched, whatever its outcome.
  With a fixed coefficient, both steps use that scalar, leave it as it is and return
  the two losses only.
\<close>

theorem entropy_coefficient_is_stepped_where_the_policy_is_updated:
  fixes sext :: "('o, 'a, 'z, 's, 'y) sac_net_scheme" and sag :: "'s sac_agent"
    and srnd :: "('z, 'w) rng_scheme"
    and ob :: 'o and a :: 'a and r :: tensor and o2 :: 'o and d :: tensor
    and rext :: "('p, 'b, 'u, 't, 'v) redq_net_scheme" and rag :: "'t redq_agent"
    and rrnd :: "('u, 'x) redq_rng_scheme"
    and obr :: 'p and ar :: 'b and rr :: tensor and o2r :: 'p and dr :: tensor
    and Bs :: nat and Br :: nat and la :: real and s :: 's and c :: real
    and lar :: real and sr :: 't and cr :: real
    and logp :: tensor and logpr :: tensor
  defines "S \<equiv> sac_train sext sag (ob, a, r, o2, d) srnd"
    and "R \<equiv> redq_train rext rag (obr, ar, rr, o2r, dr) rrnd"
    and "logp \<equiv> snd (actor_forward sext (actor (model sag)) ob (eps_pi srnd))"
    and "logpr \<equiv> snd (actor_forward rext (actor (model rag)) obr (eps_pi rrnd))"
    and "L \<equiv> (\<lambda>l. - mean (map (\<lambda>x. l * (x + target_entropy sag)) logp))"
    and "Lr \<equiv> (\<lambda>l. - mean (map (\<lambda>x. l * (x + target_entropy rag)) logpr))"
    and "due \<equiv> ((i_update rag + 1) mod q_updates_per_policy_update rag = 0)"
  shows
    "(sac_shapes sext Bs (ob, a, r, o2, d) srnd \<and> learn_entropy_coef sag
        \<and> entropy sag = Learned la s \<longrightarrow>
        entropy (fst S) = Learned (snd (alpha_step sext s L la)) (fst (alpha_step sext s L la))
        \<and> (\<exists>bk lq lp.
             sac_backup sext (gamma sag) (model sag) (model_target sag) (exp la) r o2 d
               (eps_a2 srnd) = Inr bk
           \<and> sac_loss_q sext ob a bk (q1 (model sag), q2 (model sag)) = Inr lq
           \<and> sac_loss_pi sext (q1 (model (fst S))) (q2 (model (fst S))) (exp la) ob (eps_pi srnd)
               (actor (model sag)) = Inr lp
           \<and> snd S = Inr [''loss_actor'' \<mapsto> lp, ''loss_critic'' \<mapsto> lq,
                          ''loss_entropy_coef'' \<mapsto> L la, ''entropy_coef'' \<mapsto> exp la]))
   \<and> (sac_shapes sext Bs (ob, a, r, o2, d) srnd \<and> \<not> learn_entropy_coef sag
        \<and> entropy sag = Fixed c \<longrightarrow>
        entropy (fst S) = Fixed c
        \<and> (\<exists>bk lq lp.
             sac_backup sext (gamma sag) (model sag) (model_target sag) c r o2 d
               (eps_a2 srnd) = Inr bk
           \<and> sac_loss_q sext ob a bk (q1 (model sag), q2 (model sag)) = Inr lq
           \<and> sac_loss_pi sext (q1 (model (fst S))) (q2 (model (fst S))) c ob (eps_pi srnd)
               (actor (model sag)) = Inr lp
           \<and> snd S = Inr [''loss_actor'' \<mapsto> lp, ''loss_critic'' \<mapsto> lq]))
   \<and> (redq_ready rext Br rag (obr, ar, rr, o2r, dr) rrnd \<and> learn_entropy_coef rag
        \<and> entropy rag = Learned lar sr \<and> q_updates_per_policy_update rag \<noteq> 0 \<and> due \<longrightarrow>
        entropy (fst R) =
          Learned (snd (alpha_step rext sr Lr lar)) (fst (alpha_step rext sr Lr lar))
        \<and> (\<exists>bk lq lp.
             redq_backup rext (gamma rag) (model rag) (model_target rag) (redq_n rag) (redq_m rag)
               (exp lar) rr o2r dr (eps_a2 rrnd) (perm rrnd) = Inr bk
           \<and> redq_loss_q rext obr ar (redq_n rag) bk (qs (model rag)) = Inr lq
           \<and> redq_loss_pi rext (qs (model rag)) (exp lar) obr (eps_pi rrnd) (actor (model rag))
               = Inr lp
           \<and> snd R = Inr [''loss_actor'' \<mapsto> lp, ''loss_critic'' \<mapsto> lq,
                          ''loss_entropy_coef'' \<mapsto> Lr lar, ''entropy_coef'' \<mapsto> exp lar]))
   \<and> (\<not> due \<longrightarrow> entropy (fst R) = entropy rag)
   \<and> (redq_ready rext Br rag (obr, ar, rr, o2r, dr) rrnd \<and> \<not> learn_entropy_coef rag
        \<and> entropy rag = Fixed cr \<and> q_updates_per_policy_update rag \<noteq> 0 \<longrightarrow>
        entropy (fst R) = Fixed cr
        \<and> (\<exists>bk lq lp.
             redq_backup rext (gamma rag) (model rag) (model_target rag) (redq_n rag) (redq_m rag)
               cr rr o2r dr (eps_a2 rrnd) (perm rrnd) = Inr bk
           \<and> redq_loss_q rext obr ar (redq_n rag) bk (qs (model rag)) = Inr lq
           \<and> snd R = Inr [''loss_actor'' \<mapsto> lp, ''loss_critic'' \<mapsto> lq]))"
proof -
  have L: "L = loss_alpha_fn (target_entropy sag)
                 (snd (actor_forward sext (actor (model sag)) ob (eps_pi srnd)))"
    unfolding L_def logp_def loss_alpha_fn_def by (rule refl)
  have Lr: "Lr = loss_alpha_fn (target_entropy rag)
                 (snd (actor_forward rext (actor (model rag)) obr (eps_pi rrnd)))"
    unfolding Lr_def logpr_def loss_alpha_fn_def by (rule refl)
  show ?thesis
  proof (intro conjI impI)
    assume h: "sac_shapes sext Bs (ob, a, r, o2, d) srnd \<and> learn_entropy_coef sag
        \<and> entropy sag = Learned la s"
    note t = sac_learned_step[OF h[THEN conjunct1] h[THEN conjunct2, THEN conjunct1]
        h[THEN conjunct2, THEN conjunct2], folded L S_def]
    show "entropy (fst S) = Learned (snd (alpha_step sext s L la)) (fst (alpha_step sext s L la))"
      by (rule t[THEN conjunct1])
    show "\<exists>bk lq lp.
             sac_backup sext (gamma sag) (model sag) (model_target sag) (exp la) r o2 d
               (eps_a2 srnd) = Inr bk
           \<and> sac_loss_q sext ob a bk (q1 (model sag), q2 (model sag)) = Inr lq
           \<and> sac_loss_pi sext (q1 (model (fst S))) (q2 (model (fst S))) (exp la) ob (eps_pi srnd)
               (actor (model sag)) = Inr lp
           \<and> snd S = Inr [''loss_actor'' \<mapsto> lp, ''loss_critic'' \<mapsto> lq,
                          ''loss_entropy_coef'' \<mapsto> L la, ''entropy_coef'' \<mapsto> exp la]"
      by (rule t[THEN conjunct2])
  next
    assume h: "sac_shapes sext Bs (ob, a, r, o2, d) srnd \<and> \<not> learn_entropy_coef sag
        \<and> entropy sag = Fixed c"
    note t = sac_fixed_step[OF h[THEN conjunct1] h[THEN conjunct2, THEN conjunct1]
        h[THEN conjunct2, THEN conjunct2], folded S_def]
    show "entropy (fst S) = Fixed c" by (rule t[THEN conjunct1])
    show "\<exists>bk lq lp.
             sac_backup sext (gamma sag) (model sag) (model_target sag) c r o2 d
               (eps_a2 srnd) = Inr bk
           \<and> sac_loss_q sext ob a bk (q1 (model sag), q2 (model sag)) = Inr lq
           \<and> sac_loss_pi sext (q1 (model (fst S))) (q2 (model (fst S))) c ob (eps_pi srnd)
               (actor (model sag)) = Inr lp
           \<and> snd S = Inr [''loss_actor'' \<mapsto> lp, ''loss_critic'' \<mapsto> lq]"
      by (rule t[THEN conjunct2])
  next
    assume h: "redq_ready rext Br rag (obr, ar, rr, o2r, dr) rrnd \<and> learn_entropy_coef rag
        \<and> entropy rag = Learned lar sr \<and> q_updates_per_policy_update rag \<noteq> 0 \<and> due"
    note t = redq_learned_step[OF h[THEN conjunct1] h[THEN conjunct2, THEN conjunct1]
        h[THEN conjunct2, THEN conjunct2, THEN conjunct1]
        h[THEN conjunct2, THEN conjunct2, THEN conjunct2, THEN conjunct1]
        h[THEN conjunct2, THEN conjunct2, THEN conjunct2, THEN conjunct2, unfolded due_def],
        folded Lr R_def]
    show "entropy (fst R) =
          Learned (snd (alpha_step rext sr Lr lar)) (fst (alpha_step rext sr Lr lar))"
      by (rule t[THEN conjunct1])
    show "\<exists>bk lq lp.
             redq_backup rext (gamma rag) (model rag) (model_target rag) (redq_n rag) (redq_m rag)
               (exp lar) rr o2r dr (eps_a2 rrnd) (perm rrnd) = Inr bk
           \<and> redq_loss_q rext obr ar (redq_n rag) bk (qs (model rag)) = Inr lq
           \<and> redq_loss_pi rext (qs (model rag)) (exp lar) obr (eps_pi rrnd) (actor (model rag))
               = Inr lp
           \<and> snd R = Inr [''loss_actor'' \<mapsto> lp, ''loss_critic'' \<mapsto> lq,
                          ''loss_entropy_coef'' \<mapsto> Lr lar, ''entropy_coef'' \<mapsto> exp lar]"
      by (rule t[THEN conjunct2])
  next
    assume "\<not> due"
    then have "(i_update rag + 1) mod q_updates_per_policy_update rag \<noteq> 0"
      by (simp add: due_def)
    then show "entropy (fst R) = entropy rag"
      unfolding R_def by (rule redq_skipped_call_keeps_entropy)
  next
    assume h: "redq_ready rext Br rag (obr, ar, rr, o2r, dr) rrnd \<and> \<not> learn_entropy_coef rag
        \<and> entropy rag = Fixed cr \<and> q_updates_per_policy_update rag \<noteq> 0"
    note t = redq_fixed_step[OF h[THEN conjunct1] h[THEN conjunct2, THEN conjunct1]
        h[THEN conjunct2, THEN conjunct2, THEN conjunct1]
        h[THEN conjunct2, THEN conjunct2, THEN conjunct2], folded R_def]
    show "entropy (fst R) = Fixed cr" by (rule t[THEN conjunct1])
    from t[THEN conjunct2] obtain bk lq lp where
      "redq_backup rext (gamma rag) (model rag) (model_target rag) (redq_n rag) (redq_m rag)
               cr rr o2r dr (eps_a2 rrnd) (perm rrnd) = Inr bk
           \<and> redq_loss_q rext obr ar (redq_n rag) bk (qs (model rag)) = Inr lq
           \<and> snd R = Inr [''loss_actor'' \<mapsto> lp, ''loss_critic'' \<mapsto> lq]"
      by blast
    then show "\<exists>bk lq lp.
             redq_backup rext (gamma rag) (model rag) (model_target rag) (redq_n rag) (redq_m rag)
               cr rr o2r dr (eps_a2 rrnd) (perm rrnd) = Inr bk
           \<and> redq_loss_q rext obr ar (redq_n rag) bk (qs (model rag)) = Inr lq
           \<and> snd R = Inr [''loss_actor'' \<mapsto> lp, ''loss_critic'' \<mapsto> lq]"
      by (intro exI)
  qed
qed

theorem entropy_coefficient_is_stepped_where_the_policy_is_updated_witness:
  "entropy (fst (sac_train ex_sac_net ex_sac_agent ex_batch ex_rng)) = Learned (- 3 / 2) 1
   \<and> (\<exists>lp lq. snd (sac_train ex_sac_net ex_sac_agent ex_batch ex_rng) =
         Inr [''loss_actor'' \<mapsto> lp, ''loss_critic'' \<mapsto> lq,
              ''loss_entropy_coef'' \<mapsto> 0, ''entropy_coef'' \<mapsto> 1])
   \<and> entropy (fst (sac_train ex_sac_net ex_sac_fixed ex_batch ex_rng)) = Fixed 1
   \<and> (\<exists>lp lq. snd (sac_train ex_sac_net ex_sac_fixed ex_batch ex_rng) =
         Inr [''loss_actor'' \<mapsto> lp, ''loss_critic'' \<mapsto> lq])
   \<and> entropy (fst (redq_train ex_redq_net ex_redq_due ex_batch ex_rng)) = Learned (- 3 / 2) 1
   \<and> snd (redq_train ex_redq_net ex_redq_due ex_batch ex_rng) =
         Inr [''loss_actor'' \<mapsto> - 21 / 4, ''loss_critic'' \<mapsto> 39 / 4,
              ''loss_entropy_coef'' \<mapsto> 0, ''entropy_coef'' \<mapsto> 1]
   \<and> entropy (fst (redq_train ex_redq_net ex_redq_fixed ex_batch ex_rng)) = Fixed 1
   \<and> (\<exists>lp lq. snd (redq_train ex_redq_net ex_redq_fixed ex_batch ex_rng) =
         Inr [''loss_actor'' \<mapsto> lp, ''loss_critic'' \<mapsto> lq])"
proof -
  note th1 = entropy_coefficient_is_stepped_where_the_policy_is_updated
    [where sext = ex_sac_net and sag = ex_sac_agent and srnd = ex_rng
       and ob = "[1, 2]" and a = "[0, 1]" and r = "[1, 0]" and ?o2.0 = "[2, 3]" and d = "[0, 1]"
       and rext = ex_redq_net and rag = ex_redq_due and rrnd = ex_rng
       and obr = "[1, 2]" and ar = "[0, 1]" and rr = "[1, 0]" and o2r = "[2, 3]" and dr = "[0, 1]"
       and Bs = 2 and Br = 2 and la = 0 and s = 0 and lar = 0 and sr = 0 and c = 1 and cr = 1,
     folded ex_batch_def]
  note th2 = entropy_coefficient_is_stepped_where_the_policy_is_updated
    [where sext = ex_sac_net and sag = ex_sac_fixed and srnd = ex_rng
       and ob = "[1, 2]" and a = "[0, 1]" and r = "[1, 0]" and ?o2.0 = "[2, 3]" and d = "[0, 1]"
       and rext = ex_redq_net and rag = ex_redq_fixed and rrnd = ex_rng
       and obr = "[1, 2]" and ar = "[0, 1]" and rr = "[1, 0]" and o2r = "[2, 3]" and dr = "[0, 1]"
       and Bs = 2 and Br = 2 and la = 0 and s = 0 and lar = 0 and sr = 0 and c = 1 and cr = 1,
     folded ex_batch_def]
  have hA: "sac_shapes ex_sac_net 2 ex_batch ex_rng \<and> learn_entropy_coef ex_sac_agent
      \<and> entropy ex_sac_agent = Learned 0 0"
    using ex_sac_shapes by (simp add: ex_sac_agent_def ex_batch_def)
  have hB: "sac_shapes ex_sac_net 2 ex_batch ex_rng \<and> \<not> learn_entropy_coef ex_sac_fixed
      \<and> entropy ex_sac_fixed = Fixed 1"
    using ex_sac_shapes by (simp add: ex_sac_fixed_def ex_sac_agent_def ex_batch_def)
  have hC: "redq_ready ex_redq_net 2 ex_redq_due ex_batch ex_rng \<and> learn_entropy_coef ex_redq_due
      \<and> entropy ex_redq_due = Learned 0 0 \<and> q_updates_per_policy_update ex_redq_due \<noteq> 0
      \<and> (i_update ex_redq_due + 1) mod q_updates_per_policy_update ex_redq_due = 0"
    using ex_redq_due_ready by (simp add: ex_redq_due_def ex_redq_agent_def ex_batch_def)
  have hD: "\<not> (i_update ex_redq_fixed + 1) mod q_updates_per_policy_update ex_redq_fixed = 0"
    by (simp add: ex_redq_fixed_def)
  have hE: "redq_ready ex_redq_net 2 ex_redq_fixed ex_batch ex_rng
      \<and> \<not> learn_entropy_coef ex_redq_fixed
      \<and> entropy ex_redq_fixed = Fixed 1 \<and> q_updates_per_policy_update ex_redq_fixed \<noteq> 0"
    using ex_redq_fixed_ready by (simp add: ex_redq_fixed_def ex_batch_def)
  note A = th1[THEN conjunct1, THEN mp, OF hA]
  note B = th2[THEN conjunct2, THEN conjunct1, THEN mp, OF hB]
  note C = th1[THEN conjunct2, THEN conjunct2, THEN conjunct1, THEN mp, OF hC]
  note D = th2[THEN conjunct2, THEN conjunct2, THEN conjunct2, THEN conjunct1, THEN mp, OF hD]
  note E = th2[THEN conjunct2, THEN conjunct2, THEN conjunct2, THEN conjunct2, THEN mp, OF hE]
  have 1: "entropy (fst (sac_train ex_sac_net ex_sac_agent ex_batch ex_rng)) = Learned (- 3 / 2) 1"
    using A[THEN conjunct1]
    by (simp add: ex_sac_net_def ex_sac_agent_def ex_actor_def ex_rng_def mean_def)
  have 2: "\<exists>lp lq. snd (sac_train ex_sac_net ex_sac_agent ex_batch ex_rng) =
         Inr [''loss_actor'' \<mapsto> lp, ''loss_critic'' \<mapsto> lq,
              ''loss_entropy_coef'' \<mapsto> 0, ''entropy_coef'' \<mapsto> 1]"
  proof -
    from A[THEN conjunct2] obtain bk lq lp where
      "snd (sac_train ex_sac_net ex_sac_agent ex_batch ex_rng) =
         Inr [''loss_actor'' \<mapsto> lp, ''loss_critic'' \<mapsto> lq,
              ''loss_entropy_coef'' \<mapsto>
                 - mean (map (\<lambda>x. 0 * (x + target_entropy ex_sac_agent))
                     (snd (actor_forward ex_sac_net (actor (model ex_sac_agent)) [1, 2]
                        (eps_pi ex_rng)))),
              ''entropy_coef'' \<mapsto> exp 0]"
      by (elim exE conjE)
    then have "snd (sac_train ex_sac_net ex_sac_agent ex_batch ex_rng) =
         Inr [''loss_actor'' \<mapsto> lp, ''loss_critic'' \<mapsto> lq,
              ''loss_entropy_coef'' \<mapsto> 0, ''entropy_coef'' \<mapsto> 1]"
      by (simp add: mean_def)
    then show ?thesis by (intro exI)
  qed
  have 3: "entropy (fst (sac_train ex_sac_net ex_sac_fixed ex_batch ex_rng)) = Fixed 1"
    by (rule B[THEN conjunct1])
  have 4: "\<exists>lp lq. snd (sac_train ex_sac_net ex_sac_fixed ex_batch ex_rng) =
         Inr [''loss_actor'' \<mapsto> lp, ''loss_critic'' \<mapsto> lq]"
  proof -
    from B[THEN conjunct2] obtain bk lq lp where
      "snd (sac_train ex_sac_net ex_sac_fixed ex_batch ex_rng) =
         Inr [''loss_actor'' \<mapsto> lp, ''loss_critic'' \<mapsto> lq]"
      by (elim exE conjE)
    then show ?thesis by (intro exI)
  qed
  have 5: "entropy (fst (redq_train ex_redq_net ex_redq_due ex_batch ex_rng)) = Learned (- 3 / 2) 1"
    using C[THEN conjunct1]
    by (simp add: ex_redq_net_def ex_redq_due_def ex_redq_agent_def ex_redq_model_def
        ex_actor_def ex_rng_def mean_def)
  have 6: "snd (redq_train ex_redq_net ex_redq_due ex_batch ex_rng) =
         Inr [''loss_actor'' \<mapsto> - 21 / 4, ''loss_critic'' \<mapsto> 39 / 4,
              ''loss_entropy_coef'' \<mapsto> 0, ''entropy_coef'' \<mapsto> 1]"
  proof -
    from C[THEN conjunct2] obtain bk lq lp where
      b: "redq_backup ex_redq_net (gamma ex_redq_due) (model ex_redq_due) (model_target ex_redq_due)
            (redq_n ex_redq_due) (redq_m ex_redq_due) (exp 0) [1, 0] [2, 3] [0, 1]
            (eps_a2 ex_rng) (perm ex_rng) = Inr bk"
      and q: "redq_loss_q ex_redq_net [1, 2] [0, 1] (redq_n ex_redq_due) bk (qs (model ex_redq_due))
            = Inr lq"
      and p: "redq_loss_pi ex_redq_net (qs (model ex_redq_due)) (exp 0) [1, 2] (eps_pi ex_rng)
            (actor (model ex_redq_due)) = Inr lp"
      and r: "snd (redq_train ex_redq_net ex_redq_due ex_batch ex_rng) =
         Inr [''loss_actor'' \<mapsto> lp, ''loss_critic'' \<mapsto> lq,
              ''loss_entropy_coef'' \<mapsto>
                 - mean (map (\<lambda>x. 0 * (x + target_entropy ex_redq_due))
                     (snd (actor_forward ex_redq_net (actor (model ex_redq_due)) [1, 2]
                        (eps_pi ex_rng)))),
              ''entropy_coef'' \<mapsto> exp 0]"
      by (elim exE conjE)
    from b have bk: "bk = [3, 0]"
      by (simp add: redq_eval ex_redq_due_def ex_redq_agent_def)
    from q have lq: "lq = 39 / 4"
      unfolding bk by (simp add: redq_eval ex_redq_due_def ex_redq_agent_def)
    from p have lp: "lp = - 21 / 4"
      by (simp add: redq_eval ex_redq_due_def ex_redq_agent_def)
    from r show ?thesis unfolding lq lp by (simp add: mean_def)
  qed
  have 7: "entropy (fst (redq_train ex_redq_net ex_redq_fixed ex_batch ex_rng)) = Fixed 1"
    using D by (simp add: ex_redq_fixed_def)
  have 8: "\<exists>lp lq. snd (redq_train ex_redq_net ex_redq_fixed ex_batch ex_rng) =
         Inr [''loss_actor'' \<mapsto> lp, ''loss_critic'' \<mapsto> lq]"
  proof -
    from E[THEN conjunct2] obtain bk lq lp where
      "snd (redq_train ex_redq_net ex_redq_fixed ex_batch ex_rng) =
         Inr [''loss_actor'' \<mapsto> lp, ''loss_critic'' \<mapsto> lq]"
      by (elim exE conjE)
    then show ?thesis by (intro exI)
  qed
  from 1 2 3 4 5 6 7 8 show ?thesis by (intro conjI)
qed

end
